(* ===== verification/Prelude.thy ===== *)
theory Prelude
  imports Main "HOL-Library.Word"
begin

text \<open>
  Shared vocabulary of the development: the collections of rewrite rules that the
  component theories extend (\<open>py_simps\<close> for the Python execution model,
  \<open>str_simps\<close> for the Python string and path functions), the type names of the
  model (paths, bytes), and generic lemmas on lists and maps that the string functions
  and the file-system model use.
\<close>

named_theorems py_simps "unfolding rules of the Python execution model"
named_theorems str_simps "evaluation rules of the Python string and path functions"

type_synonym path = string
type_synonym byte = "8 word"

lemma unat_byte_le [simp]: "unat (b :: byte) \<le> 255"
proof -
  have "unat b < 2 ^ LENGTH(8)" by (rule unsigned_less)
  then show ?thesis by simp
qed

subsection \<open>Lists split at a separator\<close>

text \<open>
  Python's \<open>rsplit\<close>, \<open>rfind\<close> and \<open>os.path.splitext\<close> look for the last
  occurrence of a character. The model reads the string backwards; these lemmas say what
  the backward scan finds when the string is \<open>b @ c # e\<close> with no \<open>c\<close> in \<open>e\<close>.
\<close>

lemma takeWhile_rev_sep [simp]:
  "c \<notin> set e \<Longrightarrow> takeWhile (\<lambda>x. x \<noteq> c) (rev e @ c # r) = rev e"
  by (induction e rule: rev_induct) auto

lemma dropWhile_rev_sep [simp]:
  "c \<notin> set e \<Longrightarrow> dropWhile (\<lambda>x. x \<noteq> c) (rev e @ c # r) = c # r"
  by (induction e rule: rev_induct) auto

subsection \<open>Maps cleared along a list\<close>

text \<open>A loop that deletes one path per element leaves every one of those paths empty.\<close>

lemma fold_clear_keeps_None:
  "t p = None \<Longrightarrow> fold (\<lambda>y t. t(g y := None)) xs t p = None"
  by (induction xs arbitrary: t) auto

lemma fold_clear_None:
  "x \<in> set xs \<Longrightarrow> fold (\<lambda>y t. t(g y := None)) xs t (g x) = None"
  by (induction xs arbitrary: t) (auto intro: fold_clear_keeps_None)

lemma fold_clear_other:
  "p \<notin> g ` set xs \<Longrightarrow> fold (\<lambda>y t. t(g y := None)) xs t p = t p"
  by (induction xs arbitrary: t) auto

end
