(* ===== verification/PyLib.thy ===== *)
theory PyLib
  imports Prelude
begin

text \<open>
  The parts of Python's \<open>str\<close> and \<open>os.path\<close> (POSIX flavour) that the repository
  calls, written after CPython's definitions: \<open>str.lower\<close> (on ASCII letters, the
  characters of the model being bytes), \<open>str.rfind\<close>, \<open>str.rsplit(sep, 1)\<close>,
  \<open>str.endswith\<close>, \<open>str.replace\<close>, \<open>os.path.splitext\<close>, \<open>os.path.basename\<close>,
  \<open>os.path.dirname\<close> and \<open>os.path.join\<close> with two arguments. These are library
  functions, not code of the repository; the lemmas below are the facts about them that the
  component proofs use (split and join round trips, the separator scan).
\<close>

definition ascii_upper :: string where
  "ascii_upper = ''ABCDEFGHIJKLMNOPQRSTUVWXYZ''"

definition ascii_lower :: string where
  "ascii_lower = ''abcdefghijklmnopqrstuvwxyz''"

definition lower_char :: "char \<Rightarrow> char" where
  "lower_char c = (case map_of (zip ascii_upper ascii_lower) c of Some d \<Rightarrow> d | None \<Rightarrow> c)"

definition py_lower :: "string \<Rightarrow> string" where
  "py_lower s = map lower_char s"

definition upper_char :: "char \<Rightarrow> char" where
  "upper_char c = (case map_of (zip ascii_lower ascii_upper) c of Some d \<Rightarrow> d | None \<Rightarrow> c)"

definition py_upper :: "string \<Rightarrow> string" where
  "py_upper s = map upper_char s"

text \<open>\<open>s.split(c)\<close>: the pieces between the occurrences of \<open>c\<close>.\<close>

fun split_on :: "char \<Rightarrow> string \<Rightarrow> string list" where
  "split_on c [] = [[]]"
| "split_on c (x # s) = (if x = c then [] # split_on c s
     else (case split_on c s of l # ls \<Rightarrow> (x # l) # ls | [] \<Rightarrow> [[x]]))"

text \<open>\<open>s.rfind(c)\<close>: the index of the last \<open>c\<close>, or \<open>-1\<close>.\<close>

definition rfind :: "char \<Rightarrow> string \<Rightarrow> int" where
  "rfind c s = (if c \<in> set s
     then int (length s - Suc (length (takeWhile (\<lambda>x. x \<noteq> c) (rev s)))) else -1)"

text \<open>\<open>s.rsplit(c, 1)\<close>: one element when \<open>c\<close> does not occur, else the parts before
  and after the last \<open>c\<close>.\<close>

definition rsplit1 :: "char \<Rightarrow> string \<Rightarrow> string list" where
  "rsplit1 c s = (if c \<in> set s
     then [rev (tl (dropWhile (\<lambda>x. x \<noteq> c) (rev s))), rev (takeWhile (\<lambda>x. x \<noteq> c) (rev s))]
     else [s])"

definition py_endswith :: "string \<Rightarrow> string \<Rightarrow> bool" where
  "py_endswith s suf = (suf = drop (length s - length suf) s \<and> length suf \<le> length s)"

text \<open>\<open>s.replace(old, new)\<close>: every non-overlapping occurrence, left to right; an empty
  \<open>old\<close> inserts \<open>new\<close> around every character, as CPython does.\<close>

fun py_replace :: "string \<Rightarrow> string \<Rightarrow> string \<Rightarrow> string" where
  "py_replace old new [] = (if old = [] then new else [])"
| "py_replace old new (c # s) =
     (if old = [] then new @ c # py_replace old new s
      else if take (length old) (c # s) = old then new @ py_replace old new (drop (length old - 1) s)
      else c # py_replace old new s)"

text \<open>
  \<open>os.path.splitext(p)\<close> (\<open>genericpath._splitext\<close>): the extension starts at the
  last dot after the last slash, unless every character of the base name before that dot
  is itself a dot (\<open>.bashrc\<close> has no extension).
\<close>

definition splitext :: "string \<Rightarrow> string \<times> string" where
  "splitext p = (let si = rfind CHR ''/'' p; di = rfind CHR ''.'' p in
     if si < di \<and> list_ex (\<lambda>x. x \<noteq> CHR ''.'') (take (nat (di - (si + 1))) (drop (nat (si + 1)) p))
     then (take (nat di) p, drop (nat di) p) else (p, []))"

definition basename :: "string \<Rightarrow> string" where
  "basename p = drop (nat (rfind CHR ''/'' p + 1)) p"

definition dirname :: "string \<Rightarrow> string" where
  "dirname p = (let h = take (nat (rfind CHR ''/'' p + 1)) p in
     if h \<noteq> [] \<and> h \<noteq> replicate (length h) CHR ''/''
     then rev (dropWhile (\<lambda>x. x = CHR ''/'') (rev h)) else h)"

definition path_join :: "string \<Rightarrow> string \<Rightarrow> string" where
  "path_join a b = (if take 1 b = ''/'' then b
     else if a = [] \<or> last a = CHR ''/'' then a @ b else a @ ''/'' @ b)"

text \<open>\<open>posixpath.normpath(p)\<close>: the components other than empty ones and \<open>.\<close>, where
  \<open>..\<close> removes the component before it (kept at the start of a relative path, dropped at
  the root), joined by \<open>/\<close> behind the leading slashes (two are kept, three or more become
  one); the empty result is \<open>.\<close>.\<close>

text \<open>\<open>sep.join(xs)\<close>.\<close>

fun py_join :: "string \<Rightarrow> string list \<Rightarrow> string" where
  "py_join sep [] = []"
| "py_join sep [x] = x"
| "py_join sep (x # y # xs) = x @ sep @ py_join sep (y # xs)"

fun norm_comps :: "bool \<Rightarrow> string list \<Rightarrow> string list \<Rightarrow> string list" where
  "norm_comps absolute [] acc = acc"
| "norm_comps absolute (c # cs) acc =
     (if c = [] \<or> c = ''.'' then norm_comps absolute cs acc
      else if c \<noteq> ''..'' \<or> (\<not> absolute \<and> acc = []) \<or> (acc \<noteq> [] \<and> last acc = ''..'')
      then norm_comps absolute cs (acc @ [c])
      else norm_comps absolute cs (butlast acc))"

definition normpath :: "string \<Rightarrow> string" where
  "normpath p = (if p = [] then ''.'' else
     (let initial_slashes = (if take 1 p = ''/'' then (if take 2 p = ''//'' \<and> take 3 p \<noteq> ''///'' then 2 else 1)
                             else (0::nat));
          r = replicate initial_slashes CHR ''/'' @
                py_join ''/'' (norm_comps (initial_slashes \<noteq> 0) (split_on CHR ''/'' p) []) in
      if r = [] then ''.'' else r))"

declare ascii_upper_def [str_simps] ascii_lower_def [str_simps] lower_char_def [str_simps] py_lower_def [str_simps]
  upper_char_def [str_simps] py_upper_def [str_simps] rfind_def [str_simps]
  rsplit1_def [str_simps] py_endswith_def [str_simps] splitext_def [str_simps]
  basename_def [str_simps] dirname_def [str_simps] path_join_def [str_simps] normpath_def [str_simps] py_join.simps [str_simps]

subsection \<open>Round trips of the separator functions\<close>

lemma rfind_last:
  "c \<notin> set e \<Longrightarrow> rfind c (b @ c # e) = int (length b)"
  by (simp add: rfind_def)

lemma rfind_absent: "c \<notin> set s \<Longrightarrow> rfind c s = -1"
  by (simp add: rfind_def)

lemma rsplit1_last: "c \<notin> set e \<Longrightarrow> rsplit1 c (b @ c # e) = [b, e]"
  by (simp add: rsplit1_def)

lemma rsplit1_absent: "c \<notin> set s \<Longrightarrow> rsplit1 c s = [s]"
  by (simp add: rsplit1_def)

lemma rsplit1_cases:
  "(c \<notin> set s \<and> rsplit1 c s = [s]) \<or>
   (\<exists>b e. s = b @ c # e \<and> c \<notin> set e \<and> rsplit1 c s = [b, e])"
proof (cases "c \<in> set s")
  case True
  then obtain b e where "s = b @ c # e" and "c \<notin> set e"
    using split_list_last by metis
  then show ?thesis by (simp add: rsplit1_last)
next
  case False
  then show ?thesis by (simp add: rsplit1_absent)
qed

lemma rsplit1_two_iff:
  "rsplit1 c s = [b, e] \<longleftrightarrow> s = b @ c # e \<and> c \<notin> set e"
  using rsplit1_cases[of c s] by (auto simp: rsplit1_last)

lemma py_lower_append [simp]: "py_lower (a @ b) = py_lower a @ py_lower b"
  by (simp add: py_lower_def)

lemma py_lower_Cons [simp]: "py_lower (c # s) = lower_char c # py_lower s"
  by (simp add: py_lower_def)

lemma lower_char_cases:
  "lower_char c = c \<or> (c \<in> set ascii_upper \<and> lower_char c \<in> set ascii_lower)"
proof (cases "map_of (zip ascii_upper ascii_lower) c")
  case None
  then show ?thesis by (simp add: lower_char_def)
next
  case (Some d)
  then have "(c, d) \<in> set (zip ascii_upper ascii_lower)" by (rule map_of_SomeD)
  then have "c \<in> set ascii_upper" and "d \<in> set ascii_lower"
    by (auto dest: set_zip_leftD set_zip_rightD)
  with Some show ?thesis by (simp add: lower_char_def)
qed

lemma lower_char_fixed: "c \<notin> set ascii_upper \<Longrightarrow> lower_char c = c"
proof -
  assume "c \<notin> set ascii_upper"
  then have "map_of (zip ascii_upper ascii_lower) c = None"
    by (auto simp: map_of_eq_None_iff dest: set_zip_leftD)
  then show ?thesis by (simp add: lower_char_def)
qed

lemma lower_char_idem [simp]: "lower_char (lower_char c) = lower_char c"
proof -
  have disj: "set ascii_lower \<inter> set ascii_upper = {}"
    by (simp add: ascii_lower_def ascii_upper_def)
  from lower_char_cases[of c] disj show ?thesis
    by (metis disjoint_iff lower_char_fixed)
qed

lemma py_lower_idem [simp]: "py_lower (py_lower s) = py_lower s"
  by (simp add: py_lower_def)

lemma lower_char_dot [simp]: "lower_char CHR ''.'' = CHR ''.''"
  by (rule lower_char_fixed) (simp add: ascii_upper_def)

lemma lower_char_dot_iff [simp]: "lower_char c = CHR ''.'' \<longleftrightarrow> c = CHR ''.''"
proof -
  have "CHR ''.'' \<notin> set ascii_lower" by (simp add: ascii_lower_def)
  then show ?thesis using lower_char_cases[of c] by auto
qed

lemma dot_in_py_lower [simp]: "CHR ''.'' \<in> set (py_lower s) \<longleftrightarrow> CHR ''.'' \<in> set s"
  unfolding py_lower_def set_map by (metis image_iff lower_char_dot_iff)

lemma rsplit1_py_lower:
  "rsplit1 CHR ''.'' (py_lower s) = map py_lower (rsplit1 CHR ''.'' s)"
proof (cases "CHR ''.'' \<in> set s")
  case True
  then obtain b e where s: "s = b @ CHR ''.'' # e" and e: "CHR ''.'' \<notin> set e"
    using split_list_last by metis
  from e have "CHR ''.'' \<notin> set (py_lower e)" by simp
  with s e show ?thesis by (simp add: rsplit1_last del: dot_in_py_lower)
next
  case False
  then show ?thesis by (simp add: rsplit1_absent)
qed

lemma split_on_nonempty [simp]: "split_on c s \<noteq> []"
  by (induction s) (auto split: list.splits)

lemma split_on_append_sep:
  "c \<notin> set l \<Longrightarrow> split_on c (l @ c # s) = l # split_on c s"
  by (induction l) (auto split: list.splits)

lemma split_on_lines:
  "\<forall>l \<in> set ls. c \<notin> set l \<Longrightarrow> split_on c (concat (map (\<lambda>l. l @ [c]) ls)) = ls @ [[]]"
  by (induction ls) (simp_all add: split_on_append_sep)

lemma splitext_append: "fst (splitext p) @ snd (splitext p) = p"
  by (simp add: splitext_def Let_def)

lemma set_dirname: "set (dirname p) \<subseteq> set p"
proof -
  let ?h = "take (nat (rfind CHR ''/'' p + 1)) p"
  have "set (dirname p) \<subseteq> set ?h"
    unfolding dirname_def Let_def by (auto dest!: set_dropWhileD)
  also have "\<dots> \<subseteq> set p" by (rule set_take_subset)
  finally show ?thesis .
qed

lemma path_join_plain:
  "a \<noteq> [] \<Longrightarrow> last a \<noteq> CHR ''/'' \<Longrightarrow> take 1 b \<noteq> ''/'' \<Longrightarrow> path_join a b = a @ ''/'' @ b"
  by (simp add: path_join_def)

lemma path_join_rel:
  "a \<noteq> [] \<Longrightarrow> last a \<noteq> CHR ''/'' \<Longrightarrow> CHR ''/'' \<notin> set b \<Longrightarrow> path_join a b = a @ ''/'' @ b"
  by (cases b) (auto simp: path_join_def)

lemma path_join_suffix: "\<exists>p. path_join a (c @ d) = p @ d"
  by (auto simp: path_join_def)

lemma set_splitext_fst: "set (fst (splitext p)) \<subseteq> set p"
  using splitext_append[of p] by (metis Un_iff set_append subsetI)

lemma split_on_absent: "c \<notin> set s \<Longrightarrow> split_on c s = [s]"
  by (induction s) auto

lemma normpath_plain:
  assumes "\<forall>c \<in> set cs. c \<noteq> [] \<and> c \<noteq> ''.'' \<and> c \<noteq> ''..'' \<and> CHR ''/'' \<notin> set c" and "cs \<noteq> []"
  shows "normpath (py_join ''/'' cs) = py_join ''/'' cs"
proof -
  have comps: "norm_comps b cs acc = acc @ cs" for b acc
    using assms(1) by (induction cs arbitrary: acc) auto
  have split: "split_on CHR ''/'' (py_join ''/'' cs) = cs"
    using assms by (induction cs rule: induct_list012) (simp_all add: split_on_absent split_on_append_sep)
  obtain x xs where cs: "cs = x # xs" using assms(2) by (cases cs) auto
  have x: "x \<noteq> []" "CHR ''/'' \<notin> set x" using assms(1) cs by auto
  have pre: "\<exists>r. py_join ''/'' cs = x @ r" unfolding cs by (cases xs) auto
  have hd: "take 1 (py_join ''/'' cs) \<noteq> ''/''" and ne: "py_join ''/'' cs \<noteq> []"
    using pre x by (auto simp: neq_Nil_conv)
  show ?thesis using hd ne by (simp add: normpath_def Let_def split comps)
qed

end
