(* ===== verification/Classifier.thy ===== *)
theory Classifier
  imports PyLib
begin

text \<open>
  The format classifier: the extension allow-lists and their checks. \<open>src/app.py\<close>
  accepts \<open>pdf, jpg, jpeg, png, svg\<close> for single conversions and GIF frames, and
  recognises a drawing by the suffix \<open>.dwg\<close>; \<open>src/app_qt5.py\<close> accepts
  \<open>jpg, jpeg, png, svg, gif\<close>. Classification trusts the file name: the extension is
  the text after the last dot, compared lower-cased. The converters then choose their path
  by \<open>ext == 'svg'\<close> (\<open>ext_of\<close>).
\<close>

definition ALLOWED_EXTENSIONS :: "string set" where
  "ALLOWED_EXTENSIONS = {''pdf'', ''jpg'', ''jpeg'', ''png'', ''svg''}"

definition allowed_file :: "string \<Rightarrow> bool" where
  "allowed_file filename =
     (CHR ''.'' \<in> set filename \<and> py_lower (rsplit1 CHR ''.'' filename ! 1) \<in> ALLOWED_EXTENSIONS)"

text \<open>\<open>file.filename.rsplit('.', 1)[1].lower()\<close> in the conversion route.\<close>

definition ext_of :: "string \<Rightarrow> string" where
  "ext_of filename = py_lower (rsplit1 CHR ''.'' filename ! 1)"

text \<open>\<open>file.filename.lower().endswith('.dwg')\<close> in the DWG route.\<close>

definition is_dwg_name :: "string \<Rightarrow> bool" where
  "is_dwg_name filename = py_endswith (py_lower filename) ''.dwg''"

definition ALLOWED_EXTENSIONS_qt :: "string set" where
  "ALLOWED_EXTENSIONS_qt = {''jpg'', ''jpeg'', ''png'', ''svg'', ''gif''}"

definition allowed_file_qt :: "string \<Rightarrow> bool" where
  "allowed_file_qt filename =
     (CHR ''.'' \<in> set filename \<and> py_lower (rsplit1 CHR ''.'' filename ! 1) \<in> ALLOWED_EXTENSIONS_qt)"

text \<open>\<open>file_path.rsplit('.', 1)[-1].lower()\<close> in the desktop loop: the last piece, which
  is the whole path when there is no dot.\<close>

definition ext_of_qt :: "string \<Rightarrow> string" where
  "ext_of_qt file_path = py_lower (last (rsplit1 CHR ''.'' file_path))"

subsection \<open>The allow-list checks\<close>

text \<open>A name passes exactly when it is some base, a dot and an extension without dots whose
  lower-case form is allowed.\<close>

lemma allowed_file_iff:
  "allowed_file f \<longleftrightarrow>
     (\<exists>b e. f = b @ CHR ''.'' # e \<and> CHR ''.'' \<notin> set e \<and> py_lower e \<in> ALLOWED_EXTENSIONS)"
proof
  assume "allowed_file f"
  then have dot: "CHR ''.'' \<in> set f" and ok: "py_lower (rsplit1 CHR ''.'' f ! 1) \<in> ALLOWED_EXTENSIONS"
    by (simp_all add: allowed_file_def)
  from dot obtain b e where f: "f = b @ CHR ''.'' # e" and e: "CHR ''.'' \<notin> set e"
    using split_list_last by metis
  with ok show "\<exists>b e. f = b @ CHR ''.'' # e \<and> CHR ''.'' \<notin> set e \<and> py_lower e \<in> ALLOWED_EXTENSIONS"
    by (auto simp: rsplit1_last)
next
  assume "\<exists>b e. f = b @ CHR ''.'' # e \<and> CHR ''.'' \<notin> set e \<and> py_lower e \<in> ALLOWED_EXTENSIONS"
  then show "allowed_file f" by (auto simp: allowed_file_def rsplit1_last)
qed

lemma ext_of_last: "CHR ''.'' \<notin> set e \<Longrightarrow> ext_of (b @ CHR ''.'' # e) = py_lower e"
  by (simp add: ext_of_def rsplit1_last)

text \<open>(C15) The check is case-insensitive: lower-casing a file name does not change whether
  it is accepted.\<close>

lemma allowed_file_case_insensitive: "allowed_file (py_lower f) = allowed_file f"
proof (cases "CHR ''.'' \<in> set f")
  case True
  then obtain b e where "f = b @ CHR ''.'' # e" and "CHR ''.'' \<notin> set e"
    using split_list_last by metis
  then show ?thesis by (simp add: allowed_file_def rsplit1_last)
next
  case False
  then show ?thesis by (simp add: allowed_file_def)
qed

text \<open>(C16) Joining a base name and an extension with a dot and classifying the result gives
  back the extension's verdict: a name \<open>b.e\<close> with \<open>e\<close> free of dots is accepted
  exactly when \<open>e\<close>, lower-cased, is in the allow-list, whatever the base.\<close>

lemma allowed_file_join:
  "CHR ''.'' \<notin> set e \<Longrightarrow> allowed_file (b @ CHR ''.'' # e) \<longleftrightarrow> py_lower e \<in> ALLOWED_EXTENSIONS"
  by (simp add: allowed_file_def rsplit1_last)

text \<open>A file name without a dot is refused.\<close>

lemma allowed_file_no_dot: "CHR ''.'' \<notin> set f \<Longrightarrow> \<not> allowed_file f"
  by (simp add: allowed_file_def)

lemma allowed_file_nonempty: "allowed_file n \<Longrightarrow> n \<noteq> []"
  by (auto simp: allowed_file_def)

end
