(* ===== verification/Imaging.thy ===== *)
theory Imaging
  imports Prelude
begin

text \<open>
  The image values that PIL (Pillow) hands to the repository's code. An image has a PIL
  mode, a size and its pixels; every pixel is kept as an RGBA quadruple of bytes
  (\<open>8 word\<close>), grey levels as equal channels, and in a mode without an alpha band the
  alpha byte is 255 (\<open>wf_image\<close>). \<open>Image.convert("RGB")\<close> and
  \<open>Image.convert("RGBA")\<close> are modelled as Pillow implements them: the first drops
  the alpha band, keeping the colour bytes under it, the second adds an opaque alpha band
  where there is none. \<open>flatten_white\<close> is the operation the specification asks for
  before JPEG encoding (alpha compositing over white); it is not code of the repository and
  serves to compare the two.
\<close>

datatype mode = Mode_1 | Mode_L | Mode_LA | Mode_P | Mode_RGB | Mode_RGBA | Mode_CMYK

type_synonym pixel = "byte \<times> byte \<times> byte \<times> byte"

record image =
  img_mode :: mode
  img_size :: "nat \<times> nat"
  img_pixels :: "pixel list"

definition has_alpha :: "mode \<Rightarrow> bool" where
  "has_alpha m = (m = Mode_LA \<or> m = Mode_RGBA)"

definition alpha :: "pixel \<Rightarrow> byte" where
  "alpha p = snd (snd (snd p))"

definition wf_image :: "image \<Rightarrow> bool" where
  "wf_image im = (length (img_pixels im) = fst (img_size im) * snd (img_size im)
     \<and> (\<not> has_alpha (img_mode im) \<longrightarrow> (\<forall>p \<in> set (img_pixels im). alpha p = 255)))"

definition opaque :: "pixel \<Rightarrow> pixel" where
  "opaque p = (case p of (r, g, b, a) \<Rightarrow> (r, g, b, 255))"

text \<open>\<open>im.convert("RGB")\<close>: the alpha band is discarded, not composited.\<close>

definition convert_rgb :: "image \<Rightarrow> image" where
  "convert_rgb im = im\<lparr>img_mode := Mode_RGB, img_pixels := map opaque (img_pixels im)\<rparr>"

text \<open>\<open>im.convert("RGBA")\<close>: an image with an alpha band keeps it; one without gets
  the opaque band it already carries in this representation.\<close>

definition convert_rgba :: "image \<Rightarrow> image" where
  "convert_rgba im = im\<lparr>img_mode := Mode_RGBA\<rparr>"

text \<open>Compositing one channel over white: \<open>(c * a + 255 * (255 - a)) div 255\<close>.\<close>

definition over_white :: "byte \<Rightarrow> byte \<Rightarrow> byte" where
  "over_white a c = word_of_nat ((unat c * unat a + 255 * (255 - unat a)) div 255)"

definition flatten_pixel :: "pixel \<Rightarrow> pixel" where
  "flatten_pixel p = (case p of (r, g, b, a) \<Rightarrow> (over_white a r, over_white a g, over_white a b, 255))"

definition flatten_white :: "image \<Rightarrow> image" where
  "flatten_white im = im\<lparr>img_mode := Mode_RGB, img_pixels := map flatten_pixel (img_pixels im)\<rparr>"

subsection \<open>Facts on the image model\<close>

lemma convert_rgb_mode [simp]: "img_mode (convert_rgb im) = Mode_RGB"
  by (simp add: convert_rgb_def)

lemma convert_rgb_no_alpha: "\<not> has_alpha (img_mode (convert_rgb im))"
  by (simp add: has_alpha_def)

lemma convert_rgb_wf: "wf_image im \<Longrightarrow> wf_image (convert_rgb im)"
  by (auto simp: wf_image_def convert_rgb_def opaque_def alpha_def split: prod.splits)

lemma convert_rgba_wf: "wf_image im \<Longrightarrow> wf_image (convert_rgba im)"
  by (simp add: wf_image_def convert_rgba_def has_alpha_def)

lemma convert_rgba_mode [simp]: "img_mode (convert_rgba im) = Mode_RGBA"
  by (simp add: convert_rgba_def)

lemma convert_rgba_size [simp]: "img_size (convert_rgba im) = img_size im"
  by (simp add: convert_rgba_def)

lemma over_white_opaque [simp]: "over_white 255 c = c"
proof -
  have "unat c < 256" using unat_byte_le[of c] by linarith
  then show ?thesis by (simp add: over_white_def)
qed

lemma unat_over_white:
  "unat (over_white a c) = (unat c * unat a + 255 * (255 - unat a)) div 255"
proof -
  have c: "unat c \<le> 255" and a: "unat a \<le> 255" by simp_all
  from c have "unat c * unat a \<le> 255 * unat a" by simp
  with a have "unat c * unat a + 255 * (255 - unat a) \<le> 255 * 255" by arith
  then have "(unat c * unat a + 255 * (255 - unat a)) div 255 < 2 ^ LENGTH(8)"
    by simp
  then show ?thesis by (simp add: over_white_def unat_of_nat)
qed

lemma over_white_transparent [simp]: "over_white 0 c = 255"
  by (simp add: over_white_def)

end
