(* ===== verification/PyFloat.thy ===== *)
theory PyFloat
  imports PyLib Complex_Main
begin

text \<open>
  Python's \<open>float(x)\<close> on a string, after the grammar of the Python reference
  (\<open>floatvalue ::= [sign] (floatnumber | infinity | nan)\<close>, digits grouped by single
  underscores, surrounding whitespace stripped, letters case-insensitive). A finite value
  is kept as the exact \<open>real\<close> the literal denotes: rounding to binary64 and overflow
  to \<open>inf\<close> of very large literals are not modelled. \<open>float(0.5)\<close> on a value that is
  already a float returns it. Parse failure is \<open>None\<close> (Python raises \<open>ValueError\<close>).
\<close>

datatype pyfloat = Finite real | Infinity bool | NaN

definition is_digit :: "char \<Rightarrow> bool" where
  "is_digit c = (let n = (of_char c :: nat) in 48 \<le> n \<and> n \<le> 57)"

definition digit_val :: "char \<Rightarrow> nat" where
  "digit_val c = of_char c - 48"

definition is_space :: "char \<Rightarrow> bool" where
  "is_space c = (c \<in> set '' \<newline>'' \<or> (let n = (of_char c :: nat) in 9 \<le> n \<and> n \<le> 13))"

text \<open>\<open>digitpart ::= digit (["_"] digit)*\<close>\<close>

fun digitpart :: "string \<Rightarrow> bool" where
  "digitpart [] = False"
| "digitpart [c] = is_digit c"
| "digitpart (c # d # s) =
     (is_digit c \<and> (if d = CHR ''_'' then s \<noteq> [] \<and> is_digit (hd s) \<and> digitpart s else digitpart (d # s)))"

definition digits_value :: "string \<Rightarrow> nat" where
  "digits_value s = foldl (\<lambda>acc c. 10 * acc + digit_val c) 0 (filter is_digit s)"

definition digit_count :: "string \<Rightarrow> nat" where
  "digit_count s = length (filter is_digit s)"

definition strip_space :: "string \<Rightarrow> string" where
  "strip_space s = rev (dropWhile is_space (rev (dropWhile is_space s)))"

definition split_sign :: "string \<Rightarrow> bool \<times> string" where
  "split_sign s = (case s of c # r \<Rightarrow>
      if c = CHR ''-'' then (True, r) else if c = CHR ''+'' then (False, r) else (False, s)
    | [] \<Rightarrow> (False, []))"

text \<open>\<open>number ::= [digitpart] "." digitpart | digitpart ["."]\<close>, giving the mantissa
  and the number of fraction digits.\<close>

definition parse_number :: "string \<Rightarrow> (nat \<times> nat) option" where
  "parse_number s = (if CHR ''.'' \<in> set s
     then (let ip = takeWhile (\<lambda>c. c \<noteq> CHR ''.'') s; fp = tl (dropWhile (\<lambda>c. c \<noteq> CHR ''.'') s) in
       if (ip = [] \<or> digitpart ip) \<and> (fp = [] \<or> digitpart fp) \<and> (ip \<noteq> [] \<or> fp \<noteq> [])
       then Some (digits_value (ip @ fp), digit_count fp) else None)
     else if digitpart s then Some (digits_value s, 0) else None)"

definition parse_exponent :: "string \<Rightarrow> int option" where
  "parse_exponent s = (let (neg, r) = split_sign s in
     if digitpart r then Some (if neg then - int (digits_value r) else int (digits_value r)) else None)"

definition scale10 :: "nat \<Rightarrow> int \<Rightarrow> real" where
  "scale10 m e = (if 0 \<le> e then real m * 10 ^ nat e else real m / 10 ^ nat (- e))"

definition py_float :: "string \<Rightarrow> pyfloat option" where
  "py_float x = (let (neg, r) = split_sign (strip_space x); l = py_lower r in
     if l = ''inf'' \<or> l = ''infinity'' then Some (Infinity neg)
     else if l = ''nan'' then Some NaN
     else (let num = takeWhile (\<lambda>c. c \<noteq> CHR ''e'') l; ex = dropWhile (\<lambda>c. c \<noteq> CHR ''e'') l in
       case parse_number num of
         None \<Rightarrow> None
       | Some (m, k) \<Rightarrow>
           (case (if ex = [] then Some 0 else parse_exponent (tl ex)) of
              None \<Rightarrow> None
            | Some e \<Rightarrow> Some (Finite ((if neg then -1 else 1) * scale10 m (e - int k))))))"

definition float_pos :: "pyfloat \<Rightarrow> bool" where
  "float_pos f = (case f of Finite r \<Rightarrow> 0 < r | Infinity neg \<Rightarrow> \<not> neg | NaN \<Rightarrow> False)"

declare is_digit_def [str_simps] digit_val_def [str_simps] is_space_def [str_simps]
  digits_value_def [str_simps] digit_count_def [str_simps] strip_space_def [str_simps]
  split_sign_def [str_simps] parse_number_def [str_simps] parse_exponent_def [str_simps]
  scale10_def [str_simps] py_float_def [str_simps]

end
