(* ===== verification/Exec.thy ===== *)
theory Exec
  imports Imaging PyFloat
begin

text \<open>
  How the model executes Python. The state is the file system, a map from path strings
  to file contents (\<open>fs\<close>); directories are not modelled, so \<open>os.makedirs\<close> is a
  no-op. A statement sequence is a function from a state to a result and the next state,
  the result being an exception (\<open>Inl\<close>) or a value (\<open>Inr\<close>). The effects made
  before an exception stay in the state, as they do in Python: this is what lets the
  development speak about files left behind on error paths. \<open>py_try\<close> is the
  \<open>try/except/finally\<close> statement: the handler runs on an exception, the
  \<open>finally\<close> block on every path, and an exception of the \<open>finally\<close> block
  replaces the result.
\<close>

datatype exn =
    KeyError string
  | ValueError string
  | FileNotFoundError path
  | UnidentifiedImageError path
  | OSError string
  | SvgParseError path
  | NameError string
  | BackendError string

text \<open>Image container formats that Pillow, CairoSVG and imageio write.\<close>

datatype fmt = PNG | JPEG | WEBP | GIF | PDF

text \<open>
  The content of a file: an encoded raster image (\<open>Img\<close>), an SVG document (carrying
  the raster CairoSVG renders it to), a vector PDF written by CairoSVG, a multi-frame GIF
  written by imageio (frames and the per-frame duration), a text file, or bytes no
  library decodes (an uploaded drawing, a corrupt file).
\<close>

datatype blob =
    Img fmt image
  | Svg image
  | VecPdf
  | Anim "image list" pyfloat
  | Text string
  | Opaque

type_synonym fs = "path \<rightharpoonup> blob"
type_synonym 'a py = "fs \<Rightarrow> (exn + 'a) \<times> fs"

definition py_return :: "'a \<Rightarrow> 'a py" where
  "py_return x s = (Inr x, s)"

definition py_raise :: "exn \<Rightarrow> 'a py" where
  "py_raise e s = (Inl e, s)"

definition py_bind :: "'a py \<Rightarrow> ('a \<Rightarrow> 'b py) \<Rightarrow> 'b py" where
  "py_bind m f s = (case m s of (Inl e, s') \<Rightarrow> (Inl e, s') | (Inr x, s') \<Rightarrow> f x s')"

definition py_seq :: "unit py \<Rightarrow> 'b py \<Rightarrow> 'b py" where
  "py_seq m n = py_bind m (\<lambda>_. n)"

text \<open>The \<open>finally\<close> block run after a result \<open>r\<close>.\<close>

definition py_finally :: "(exn + 'a) \<times> fs \<Rightarrow> unit py \<Rightarrow> (exn + 'a) \<times> fs" where
  "py_finally r f = (case f (snd r) of (Inl e, s') \<Rightarrow> (Inl e, s') | (Inr _, s') \<Rightarrow> (fst r, s'))"

definition py_try :: "'a py \<Rightarrow> (exn \<Rightarrow> 'a py) \<Rightarrow> unit py \<Rightarrow> 'a py" where
  "py_try body handler final s =
     (case body s of
        (Inl e, s') \<Rightarrow> py_finally (handler e s') final
      | (Inr x, s') \<Rightarrow> py_finally (Inr x, s') final)"

definition py_pass :: "unit py" where
  "py_pass = py_return ()"

subsection \<open>File-system primitives\<close>

definition fs_write :: "path \<Rightarrow> blob \<Rightarrow> unit py" where
  "fs_write p b s = (Inr (), s(p \<mapsto> b))"

definition fs_read :: "path \<Rightarrow> blob py" where
  "fs_read p s = (case s p of None \<Rightarrow> (Inl (FileNotFoundError p), s) | Some b \<Rightarrow> (Inr b, s))"

text \<open>\<open>os.remove(p)\<close> raises \<open>FileNotFoundError\<close> on a missing file.\<close>

definition os_remove :: "path \<Rightarrow> unit py" where
  "os_remove p s = (if p \<in> dom s then (Inr (), s(p := None)) else (Inl (FileNotFoundError p), s))"

definition os_path_exists :: "path \<Rightarrow> bool py" where
  "os_path_exists p s = (Inr (p \<in> dom s), s)"

text \<open>\<open>if os.path.exists(p): os.remove(p)\<close>, the clean-up of the upload routes.\<close>

definition remove_if_exists :: "path \<Rightarrow> unit py" where
  "remove_if_exists p = py_bind (os_path_exists p) (\<lambda>b. if b then os_remove p else py_pass)"

lemmas py_core_defs = py_return_def py_raise_def py_bind_def py_seq_def py_finally_def py_try_def
  py_pass_def fs_write_def fs_read_def os_remove_def os_path_exists_def remove_if_exists_def

declare py_core_defs [py_simps]

subsection \<open>Laws of the execution model\<close>

lemma py_bind_Inr [simp]: "m s = (Inr x, s') \<Longrightarrow> py_bind m f s = f x s'"
  by (simp add: py_bind_def)

lemma py_bind_Inl [simp]: "m s = (Inl e, s') \<Longrightarrow> py_bind m f s = (Inl e, s')"
  by (simp add: py_bind_def)

lemma py_bind_return [simp]: "py_bind (py_return x) f = f x"
  by (simp add: py_bind_def py_return_def fun_eq_iff)

lemma py_bind_raise [simp]: "py_bind (py_raise e) f = py_raise e"
  by (simp add: py_bind_def py_raise_def fun_eq_iff)

lemma py_bind_assoc: "py_bind (py_bind m f) g = py_bind m (\<lambda>x. py_bind (f x) g)"
  by (simp add: py_bind_def fun_eq_iff split: prod.splits sum.splits)

text \<open>Removing a path that may exist always succeeds and leaves no file there.\<close>

lemma remove_if_exists_eq [simp]: "remove_if_exists p s = (Inr (), s(p := None))"
  by (auto simp: py_core_defs fun_upd_idem)

text \<open>
  The \<open>finally\<close> block runs on every path: when it cannot fail (as
  \<open>remove_if_exists\<close>), the state after the whole statement is the state after the
  body or the handler, with the block's effect applied to it.
\<close>

lemma py_try_cleanup:
  "py_try body handler (remove_if_exists p) s =
     (case body s of
        (Inl e, s') \<Rightarrow> (fst (handler e s'), (snd (handler e s'))(p := None))
      | (Inr x, s') \<Rightarrow> (Inr x, s'(p := None)))"
  by (simp add: py_try_def py_finally_def split: prod.splits sum.splits)

lemma py_try_cleanup_removes:
  "snd (py_try body handler (remove_if_exists p) s) p = None"
  by (simp add: py_try_cleanup split: prod.splits sum.splits)

end
