(* ===== verification/Libs.thy ===== *)
theory Libs
  imports Exec
begin

text \<open>
  The library calls of the repository, as effects on the file system of \<open>Exec\<close>.
  \<^item> Pillow: \<open>Image.open\<close> identifies the content, not the file name; \<open>img.save(path,
    format=name)\<close> looks \<open>name\<close> up in Pillow's registry of writers (\<open>Image.SAVE\<close>,
    keyed by format identifiers; there is no key \<open>JPG\<close>) and raises
    \<open>KeyError(name)\<close> when it is absent. The model's registry holds the writers of the
    formats the repository asks for, \<open>PNG\<close>, \<open>JPEG\<close>, \<open>WEBP\<close>, \<open>GIF\<close> and
    \<open>PDF\<close>; Pillow registers others (\<open>BMP\<close>, \<open>TIFF\<close>, \<open>XBM\<close>, ...), which the
    model leaves out, so a name outside the five is not a statement about Pillow; the JPEG writer refuses modes with an alpha band or a palette
    (\<open>OSError: cannot write mode RGBA as JPEG\<close>), the PNG writer refuses CMYK; the WebP,
    GIF and PDF writers convert what they need (Pillow 10.1 and later).
  \<^item> CairoSVG: \<open>svg2png(url=i, write_to=o)\<close> and \<open>svg2pdf\<close> read an SVG document and
    write the PNG raster or the PDF; other content raises a parse error.
  \<^item> imageio: \<open>mimsave(path, frames, duration=d)\<close> writes a multi-frame GIF. The
    model records the frames and the duration it is given and never fails; the encoder's
    refusal of some durations (\<open>nan\<close>, out of range) after writing the header and its
    merging of identical consecutive frames are not modelled.
  Encoding is not lossy in the model (a JPEG stores the image it was given), and writing a
  file does not fail.
\<close>

definition pil_registry :: "(string \<times> fmt) list" where
  "pil_registry = [(''PNG'', PNG), (''JPEG'', JPEG), (''WEBP'', WEBP), (''GIF'', GIF), (''PDF'', PDF)]"

definition pil_format :: "string \<Rightarrow> fmt option" where
  "pil_format name = map_of pil_registry name"

definition mode_name :: "mode \<Rightarrow> string" where
  "mode_name m = (case m of Mode_1 \<Rightarrow> ''1'' | Mode_L \<Rightarrow> ''L'' | Mode_LA \<Rightarrow> ''LA'' | Mode_P \<Rightarrow> ''P''
     | Mode_RGB \<Rightarrow> ''RGB'' | Mode_RGBA \<Rightarrow> ''RGBA'' | Mode_CMYK \<Rightarrow> ''CMYK'')"

definition pil_writable :: "fmt \<Rightarrow> mode \<Rightarrow> bool" where
  "pil_writable f m = (case f of
      JPEG \<Rightarrow> m \<in> {Mode_1, Mode_L, Mode_RGB, Mode_CMYK}
    | PNG \<Rightarrow> m \<noteq> Mode_CMYK
    | _ \<Rightarrow> True)"

text \<open>What \<open>Image.open\<close> makes of a content: a raster file other than PDF, or the first
  frame of a GIF animation.\<close>

definition decode_blob :: "blob \<Rightarrow> image option" where
  "decode_blob b = (case b of
      Img f im \<Rightarrow> if f = PDF then None else Some im
    | Anim (im # _) _ \<Rightarrow> Some im
    | _ \<Rightarrow> None)"

definition pil_open :: "path \<Rightarrow> image py" where
  "pil_open p = py_bind (fs_read p) (\<lambda>b. case decode_blob b of
      None \<Rightarrow> py_raise (UnidentifiedImageError p)
    | Some im \<Rightarrow> py_return im)"

definition pil_save :: "image \<Rightarrow> path \<Rightarrow> string \<Rightarrow> unit py" where
  "pil_save im p name = (case pil_format name of
      None \<Rightarrow> py_raise (KeyError name)
    | Some f \<Rightarrow>
        if pil_writable f (img_mode im) then fs_write p (Img f im)
        else py_raise (OSError (''cannot write mode '' @ mode_name (img_mode im) @ '' as '' @ name)))"

definition svg2png :: "path \<Rightarrow> path \<Rightarrow> unit py" where
  "svg2png url out = py_bind (fs_read url) (\<lambda>b. case b of
      Svg im \<Rightarrow> fs_write out (Img PNG im)
    | _ \<Rightarrow> py_raise (SvgParseError url))"

definition svg2pdf :: "path \<Rightarrow> path \<Rightarrow> unit py" where
  "svg2pdf url out = py_bind (fs_read url) (\<lambda>b. case b of
      Svg im \<Rightarrow> fs_write out VecPdf
    | _ \<Rightarrow> py_raise (SvgParseError url))"

definition mimsave :: "path \<Rightarrow> image list \<Rightarrow> pyfloat \<Rightarrow> unit py" where
  "mimsave p frames d = fs_write p (Anim frames d)"

lemmas lib_defs = pil_format_def pil_writable_def decode_blob_def pil_open_def pil_save_def
  svg2png_def svg2pdf_def mimsave_def

declare lib_defs [py_simps] pil_registry_def [py_simps] mode_name_def [py_simps]

subsection \<open>Facts on the library model\<close>

lemma pil_format_upper: "pil_format name = Some f \<Longrightarrow> name \<in> {''PNG'', ''JPEG'', ''WEBP'', ''GIF'', ''PDF''}"
  by (auto simp: pil_format_def pil_registry_def split: if_splits)

lemma py_upper_jpg [simp]: "py_upper ''jpg'' = ''JPG''"
  by (simp add: str_simps)

lemma pil_format_JPG [simp]: "pil_format ''JPG'' = None"
  by (simp add: pil_format_def pil_registry_def)

text \<open>A save with an unregistered format name raises \<open>KeyError\<close> and writes nothing.\<close>

lemma pil_save_unregistered:
  "pil_format name = None \<Longrightarrow> pil_save im p name s = (Inl (KeyError name), s)"
  by (simp add: pil_save_def py_raise_def)

lemma pil_save_rgb_ok:
  "pil_format name = Some f \<Longrightarrow> img_mode im = Mode_RGB \<Longrightarrow>
   pil_save im p name s = (Inr (), s(p \<mapsto> Img f im))"
  by (cases f) (simp_all add: pil_save_def pil_writable_def fs_write_def)

lemma pil_open_written:
  "f \<noteq> PDF \<Longrightarrow> pil_open p (s(p \<mapsto> Img f im)) = (Inr im, s(p \<mapsto> Img f im))"
  by (simp add: pil_open_def fs_read_def decode_blob_def py_bind_def py_return_def)

text \<open>The library calls change the file system at their output path only.\<close>

lemma pil_save_frame: "q \<noteq> p \<Longrightarrow> snd (pil_save im p name s) q = s q"
  by (simp add: pil_save_def py_raise_def fs_write_def split: option.splits)

lemma svg2png_frame: "q \<noteq> out \<Longrightarrow> snd (svg2png url out s) q = s q"
  by (simp add: svg2png_def py_bind_def fs_read_def py_raise_def fs_write_def
      split: option.splits blob.splits)

lemma pil_open_state [simp]: "snd (pil_open p s) = s"
  by (simp add: pil_open_def py_bind_def fs_read_def py_raise_def py_return_def
      split: option.splits)

end
