(* ===== verification/AppConvert.thy ===== *)
theory AppConvert
  imports Libs
begin

text \<open>
  The conversion helpers of the web application \<open>src/app.py\<close> (\<open>convert_image\<close> and
  \<open>convert_svg\<close>, here \<open>convert_image_app\<close> and \<open>convert_svg\<close>). Both hand
  \<open>format.upper()\<close> to Pillow as the format name, so a \<open>jpg\<close> target asks Pillow
  for the writer \<open>JPG\<close>, which its registry does not have. \<open>convert_svg\<close> first
  renders the SVG to a temporary PNG named after the output path
  (\<open>output_path.rsplit('.', 1)[0] + '.png'\<close>), re-encodes it, then deletes the temporary
  file; there is no \<open>finally\<close>, so an error in between leaves it behind.
\<close>

definition convert_image_app :: "path \<Rightarrow> path \<Rightarrow> string \<Rightarrow> unit py" where
  "convert_image_app input_path output_path format =
     py_bind (pil_open input_path) (\<lambda>img.
       let img' = (if format = ''jpg'' then convert_rgb img else img) in
       pil_save img' output_path (py_upper format))"

definition svg_temp_path :: "path \<Rightarrow> path" where
  "svg_temp_path output_path = rsplit1 CHR ''.'' output_path ! 0 @ ''.png''"

definition convert_svg :: "path \<Rightarrow> path \<Rightarrow> string \<Rightarrow> unit py" where
  "convert_svg input_path output_path format =
     (let temp_png_path = svg_temp_path output_path in
      py_seq (svg2png input_path temp_png_path)
        (py_seq (py_bind (pil_open temp_png_path) (\<lambda>img.
                   let img' = (if format = ''jpg'' then convert_rgb img else img) in
                   pil_save img' output_path (py_upper format)))
           (os_remove temp_png_path)))"

subsection \<open>Behaviour of the web application's converters\<close>

lemma svg_temp_path_png: "svg_temp_path (b @ ''.png'') = b @ ''.png''"
proof -
  have "rsplit1 CHR ''.'' (b @ CHR ''.'' # ''png'') = [b, ''png'']"
    by (rule rsplit1_last) simp
  then show ?thesis by (simp add: svg_temp_path_def)
qed

lemma svg_temp_path_ext: "CHR ''.'' \<notin> set e \<Longrightarrow> svg_temp_path (b @ ''.'' @ e) = b @ ''.png''"
  by (simp add: svg_temp_path_def rsplit1_last)

text \<open>(C2) A raster conversion to \<open>jpg\<close> in the web application never succeeds and never
  writes a file: either the input does not open, or the save asks Pillow for the format
  \<open>JPG\<close> and raises \<open>KeyError\<close>.\<close>

theorem convert_image_app_jpg_fails:
  "\<exists>e. convert_image_app i out ''jpg'' s = (Inl e, s)"
  by (simp add: convert_image_app_def pil_open_def pil_save_def py_simps
      split: option.splits)

lemma convert_svg_ok:
  assumes "s i = Some (Svg im)" and "pil_format (py_upper f) = Some g"
    and "f \<noteq> ''jpg''" and "pil_writable g (img_mode im)"
  shows "convert_svg i out f s =
    (let t = svg_temp_path out in (Inr (), s(t \<mapsto> Img PNG im, out \<mapsto> Img g im, t := None)))"
  using assms
  by (simp add: convert_svg_def Let_def py_simps decode_blob_def del: py_upper_jpg)

text \<open>(C3) Converting an SVG to \<open>png\<close> in the web application deletes its own output:
  for an output path \<open>b.png\<close> the temporary PNG is the output path, the call returns
  normally, and the file it reports is gone.\<close>

theorem convert_svg_png_self_delete:
  assumes "s i = Some (Svg im)" and "img_mode im \<noteq> Mode_CMYK"
  shows "convert_svg i (b @ ''.png'') ''png'' s = (Inr (), s(b @ ''.png'' := None))"
proof -
  have "pil_format (py_upper ''png'') = Some PNG"
    by (simp add: str_simps pil_format_def pil_registry_def)
  moreover have "pil_writable PNG (img_mode im)" using assms(2) by (simp add: pil_writable_def)
  ultimately show ?thesis
    using assms(1) convert_svg_ok[of s i im "''png''" PNG "b @ ''.png''"]
    by (simp add: svg_temp_path_png Let_def)
qed

text \<open>(C4) Converting an SVG to \<open>jpg\<close> in the web application fails with
  \<open>KeyError('JPG')\<close> after the temporary PNG has been written, and the temporary PNG is
  left in the output directory.\<close>

theorem convert_svg_jpg_leaks_temp:
  assumes "s i = Some (Svg im)"
  shows "convert_svg i out ''jpg'' s = (Inl (KeyError ''JPG''), s(svg_temp_path out \<mapsto> Img PNG im))"
  using assms
  by (simp add: convert_svg_def Let_def py_simps decode_blob_def)

end
