(* ===== verification/Routes.thy ===== *)
theory Routes
  imports Classifier AppConvert
begin

text \<open>
  The Flask routes of \<open>src/app.py\<close>, the job facade of the system: \<open>/convert\<close>
  (\<open>convert\<close>), \<open>/merge_gif\<close> (\<open>merge_gif\<close>) and \<open>/dwgtopdf\<close> (\<open>dwg_to_pdf\<close>).
  A request carries its uploaded files and its form fields as Werkzeug multi-dicts
  (association lists: \<open>d[k]\<close> is the first value of \<open>k\<close>, \<open>d.getlist(k)\<close> all of
  them in order). A route returns the status code and the JSON body. Two library results
  are parameters: \<open>secure_filename\<close> (Werkzeug) and the hexadecimal \<open>uuid4\<close> of the
  GIF's name. The \<open>print\<close> calls of \<open>merge_gif\<close> are not modelled; uploads are
  saved with \<open>FileStorage.save\<close>, which writes the file.
\<close>

record upload =
  filename :: string
  content :: blob

record request =
  req_files :: "(string \<times> upload) list"
  req_form :: "(string \<times> string) list"

definition mdict_get :: "(string \<times> 'a) list \<Rightarrow> string \<Rightarrow> 'a option" where
  "mdict_get d k = map_of d k"

definition mdict_getlist :: "(string \<times> 'a) list \<Rightarrow> string \<Rightarrow> 'a list" where
  "mdict_getlist d k = map snd (filter (\<lambda>(k', _). k' = k) d)"

text \<open>The JSON bodies; the messages of the source are Chinese text, named here by what they
  say.\<close>

datatype err_msg =
    NoFilePart | NoSelectedFile | InvalidConvertType | UnsupportedFileType | ConvertError exn
  | NoUploadedFiles | NoImagesSelected | InvalidDuration | FileTypeUnsupported string
  | TooFewImages | GifFailed exn
  | NoDwgUploaded | NoDwgSelected | DwgConvertFailed exn | OnlyDwg

datatype ok_msg = ConvertOk | GifOk | DwgOk

datatype body = Error err_msg | Success ok_msg string string

type_synonym response = "nat \<times> body"

definition UPLOAD_FOLDER :: path where "UPLOAD_FOLDER = ''uploads''"
definition OUTPUT_FOLDER :: path where "OUTPUT_FOLDER = ''outputs''"
definition DWG_FOLDER :: path where "DWG_FOLDER = path_join UPLOAD_FOLDER ''dwg''"
definition PDF_FOLDER :: path where "PDF_FOLDER = path_join OUTPUT_FOLDER ''pdf''"

subsection \<open>\<open>/convert\<close>\<close>

definition convert :: "(string \<Rightarrow> string) \<Rightarrow> request \<Rightarrow> response py" where
  "convert secure_filename req =
     (case mdict_get (req_files req) ''file'' of
        None \<Rightarrow> py_return (400, Error NoFilePart)
      | Some file \<Rightarrow>
        if filename file = [] then py_return (400, Error NoSelectedFile)
        else (case mdict_get (req_form req) ''convert_type'' of
          None \<Rightarrow> py_return (400, Error InvalidConvertType)
        | Some convert_type \<Rightarrow>
          if convert_type \<notin> {''webp'', ''png'', ''jpg''} then py_return (400, Error InvalidConvertType)
          else if filename file \<noteq> [] \<and> allowed_file (filename file) then
            (let ext = ext_of (filename file);
                 fname = secure_filename (filename file);
                 input_path = path_join UPLOAD_FOLDER fname;
                 base_name = fst (splitext fname);
                 output_filename = base_name @ ''.'' @ convert_type;
                 output_dir = path_join OUTPUT_FOLDER convert_type;
                 output_path = path_join output_dir output_filename in
             py_seq (fs_write input_path (content file))
               (py_bind
                  (py_try
                     (py_seq
                        (if ext = ''svg'' then convert_svg input_path output_path convert_type
                         else convert_image_app input_path output_path convert_type)
                        (py_return None))
                     (\<lambda>e. py_return (Some (500, Error (ConvertError e))))
                     (remove_if_exists input_path))
                  (\<lambda>r. case r of
                      Some resp \<Rightarrow> py_return resp
                    | None \<Rightarrow> py_return (200, Success ConvertOk output_filename
                               (''/download/'' @ convert_type @ ''/'' @ output_filename)))))
          else py_return (400, Error UnsupportedFileType)))"

subsection \<open>\<open>/merge_gif\<close>\<close>

text \<open>The loop over the uploaded files: files with an empty name are skipped, a name outside
  the allow-list ends the route with an error, every other file is decoded from its stream
  and converted to RGBA (a decoding error is an exception of the loop).\<close>

datatype loop_exit = Frames "image list" | Rejected string

fun collect_frames :: "upload list \<Rightarrow> image list \<Rightarrow> exn + loop_exit" where
  "collect_frames [] images = Inr (Frames images)"
| "collect_frames (file # files) images =
     (if filename file = [] then collect_frames files images
      else if filename file \<noteq> [] \<and> allowed_file (filename file) then
        (case decode_blob (content file) of
           None \<Rightarrow> Inl (UnidentifiedImageError (filename file))
         | Some img \<Rightarrow> collect_frames files (images @ [convert_rgba img]))
      else Inr (Rejected (filename file)))"

definition gif_name :: "string \<Rightarrow> string" where
  "gif_name hex = ''combo_'' @ hex @ ''.gif''"

definition gif_path :: "string \<Rightarrow> path" where
  "gif_path hex = path_join (path_join OUTPUT_FOLDER ''gif'') (gif_name hex)"

text \<open>\<open>request.form.get('duration', 0.5)\<close> followed by \<open>float(duration)\<close>.\<close>

definition form_duration :: "request \<Rightarrow> pyfloat option" where
  "form_duration req = (case mdict_get (req_form req) ''duration'' of
      None \<Rightarrow> Some (Finite (1 / 2))
    | Some d \<Rightarrow> py_float d)"

definition merge_gif :: "string \<Rightarrow> request \<Rightarrow> response py" where
  "merge_gif hex req =
     (if ''files'' \<notin> fst ` set (req_files req) then py_return (400, Error NoUploadedFiles)
      else (let files = mdict_getlist (req_files req) ''files'' in
        if files = [] then py_return (400, Error NoImagesSelected)
        else (case form_duration req of
          None \<Rightarrow> py_return (400, Error InvalidDuration)
        | Some duration \<Rightarrow>
            py_try
              (case collect_frames files [] of
                 Inl e \<Rightarrow> py_raise e
               | Inr (Rejected n) \<Rightarrow> py_return (400, Error (FileTypeUnsupported n))
               | Inr (Frames images) \<Rightarrow>
                   if length images < 2 then py_return (400, Error TooFewImages)
                   else py_seq (mimsave (gif_path hex) images duration)
                     (py_return (200, Success GifOk (gif_name hex)
                        (''/download/gif/'' @ gif_name hex))))
              (\<lambda>e. py_return (500, Error (GifFailed e)))
              py_pass)))"

subsection \<open>\<open>/dwgtopdf\<close>\<close>

text \<open>In \<open>src/app.py\<close> the definition of \<open>convert_dwg_to_pdf\<close> is commented out and the
  module imports no other, so the name is unbound when the route calls it: the call raises
  \<open>NameError\<close>.\<close>

definition convert_dwg_to_pdf_app :: "path \<Rightarrow> path \<Rightarrow> unit py" where
  "convert_dwg_to_pdf_app dwg_path pdf_output_path = py_raise (NameError ''convert_dwg_to_pdf'')"

definition dwg_to_pdf :: "(string \<Rightarrow> string) \<Rightarrow> request \<Rightarrow> response py" where
  "dwg_to_pdf secure_filename req =
     (case mdict_get (req_files req) ''file'' of
        None \<Rightarrow> py_return (400, Error NoDwgUploaded)
      | Some file \<Rightarrow>
        if filename file = [] then py_return (400, Error NoDwgSelected)
        else if filename file \<noteq> [] \<and> is_dwg_name (filename file) then
          (let fname = secure_filename (filename file);
               dwg_path = path_join DWG_FOLDER fname;
               base_name = fst (splitext fname);
               output_pdf_path = path_join PDF_FOLDER (base_name @ ''.pdf'') in
           py_seq (fs_write dwg_path (content file))
             (py_bind
                (py_try
                   (py_seq (convert_dwg_to_pdf_app dwg_path output_pdf_path) (py_return None))
                   (\<lambda>e. py_return (Some (500, Error (DwgConvertFailed e))))
                   (remove_if_exists dwg_path))
                (\<lambda>r. case r of
                    Some resp \<Rightarrow> py_return resp
                  | None \<Rightarrow> py_return (200, Success DwgOk (base_name @ ''.pdf'')
                             (''/download/pdf/'' @ base_name @ ''.pdf'')))))
        else py_return (400, Error OnlyDwg))"

subsection \<open>Properties of the routes\<close>

lemma py_bind_state_cont:
  "(\<And>x t. snd (k x t) = t) \<Longrightarrow> snd (py_bind m k s) = snd (m s)"
  by (simp add: py_bind_def split: prod.splits sum.splits)

lemma mdict_getlist_key: "mdict_getlist d k \<noteq> [] \<Longrightarrow> k \<in> fst ` set d"
  by (force simp: mdict_getlist_def filter_empty_conv)

text \<open>(C1) Whatever the conversion does, the uploaded input file is removed: for every
  request that passes the route's checks and gets its file saved, the upload path holds no
  file when the route returns, on the success path and on every error path.\<close>

theorem convert_removes_upload:
  assumes "mdict_get (req_files req) ''file'' = Some f" and "filename f \<noteq> []"
    and "mdict_get (req_form req) ''convert_type'' = Some ct" and "ct \<in> {''webp'', ''png'', ''jpg''}"
    and "allowed_file (filename f)"
  shows "snd (convert secure req s) (path_join UPLOAD_FOLDER (secure (filename f))) = None"
proof -
  have "\<And>x t. snd ((case x of Some resp \<Rightarrow> py_return resp | None \<Rightarrow> py_return r) t) = t"
    for r :: response
    by (simp add: py_return_def split: option.splits)
  then show ?thesis using assms
    by (simp add: convert_def Let_def py_seq_def fs_write_def py_bind_state_cont
        py_try_cleanup_removes)
qed

lemma convert_output_path:
  assumes "CHR ''/'' \<notin> set fname" and "ct \<in> {''png'', ''jpg'', ''webp''}"
  shows "path_join (path_join OUTPUT_FOLDER ct) (fst (splitext fname) @ ''.'' @ ct)
           = ''outputs/'' @ ct @ ''/'' @ fst (splitext fname) @ ''.'' @ ct"
proof -
  have "CHR ''/'' \<notin> set (fst (splitext fname) @ ''.'' @ ct)"
    using assms set_splitext_fst[of fname] by auto
  with assms show ?thesis by (auto simp: OUTPUT_FOLDER_def path_join_rel)
qed

lemma convert_input_path:
  "CHR ''/'' \<notin> set fname \<Longrightarrow> path_join UPLOAD_FOLDER fname = ''uploads/'' @ fname"
  by (simp add: UPLOAD_FOLDER_def path_join_rel)

lemma convert_svg_png_state:
  assumes "img_mode im \<noteq> Mode_CMYK"
  shows "convert_svg i (b @ ''.png'') ''png'' (s(i \<mapsto> Svg im)) = (Inr (), (s(i \<mapsto> Svg im))(b @ ''.png'' := None))"
proof -
  have fmt: "pil_format (py_upper ''png'') = Some PNG" by (simp add: str_simps pil_format_def pil_registry_def)
  have wr: "pil_writable PNG (img_mode im)" using assms by (simp add: pil_writable_def)
  show ?thesis
    using convert_svg_ok[OF _ fmt _ wr, of "s(i \<mapsto> Svg im)" i "b @ ''.png''"]
    by (simp add: svg_temp_path_png Let_def)
qed

lemma convert_jpg_temp_path:
  assumes "CHR ''/'' \<notin> set fname"
  shows "svg_temp_path (path_join (path_join OUTPUT_FOLDER ''jpg'') (fst (splitext fname) @ ''.jpg''))
           = ''outputs/jpg/'' @ fst (splitext fname) @ ''.png''"
  using convert_output_path[OF assms, of "''jpg''"] svg_temp_path_ext[of "''jpg''" "''outputs/jpg/'' @ fst (splitext fname)"]
  by simp

text \<open>(C25) Through the \<open>/convert\<close> route, an SVG upload converted to
  \<open>png\<close> gets the answer 200 with a download link for the output file, but the
  file the link names does not exist when the route returns: \<open>convert_svg\<close>
  removed it as its temporary PNG.\<close>

theorem convert_svg_png_dead_link:
  assumes "mdict_get (req_files req) ''file'' = Some f"
    and "mdict_get (req_form req) ''convert_type'' = Some ''png''"
    and "allowed_file (filename f)" and "ext_of (filename f) = ''svg''"
    and "content f = Svg im" and "img_mode im \<noteq> Mode_CMYK"
  shows "fst (convert secure req s) = Inr (200, Success ConvertOk (fst (splitext (secure (filename f))) @ ''.png'')
                                  (''/download/png/'' @ fst (splitext (secure (filename f))) @ ''.png''))
       \<and> snd (convert secure req s)
           (path_join (path_join OUTPUT_FOLDER ''png'') (fst (splitext (secure (filename f))) @ ''.png'')) = None"
proof -
  obtain b where out: "path_join (path_join OUTPUT_FOLDER ''png'') (fst (splitext (secure (filename f))) @ ''.png'')
      = b @ ''.png''"
    using path_join_suffix by blast
  show ?thesis
    using assms allowed_file_nonempty[OF assms(3)]
    by (simp add: convert_def Let_def out convert_svg_png_state py_seq_def fs_write_def py_try_cleanup py_return_def)
qed

text \<open>(C26) Through the \<open>/convert\<close> route, an SVG upload converted to
  \<open>jpg\<close> gets the answer 500 with \<open>KeyError('JPG')\<close>, and the
  temporary PNG stays in the \<open>outputs/jpg\<close> directory (for a secured name
  without a slash, as \<open>secure_filename\<close> returns).\<close>

theorem convert_svg_jpg_route_leaks:
  assumes "mdict_get (req_files req) ''file'' = Some f"
    and "mdict_get (req_form req) ''convert_type'' = Some ''jpg''"
    and "allowed_file (filename f)" and "ext_of (filename f) = ''svg''"
    and "content f = Svg im" and "CHR ''/'' \<notin> set (secure (filename f))"
  shows "fst (convert secure req s) = Inr (500, Error (ConvertError (KeyError ''JPG'')))
       \<and> snd (convert secure req s) (''outputs/jpg/'' @ fst (splitext (secure (filename f))) @ ''.png'')
           = Some (Img PNG im)"
proof -
  have run: "convert_svg i out ''jpg'' (s(i \<mapsto> Svg im)) =
      (Inl (KeyError ''JPG''), s(i \<mapsto> Svg im, svg_temp_path out \<mapsto> Img PNG im))" for i out
    by (simp add: convert_svg_def Let_def py_simps decode_blob_def)
  show ?thesis
    using assms allowed_file_nonempty[OF assms(3)]
    by (simp add: convert_def Let_def convert_jpg_temp_path convert_input_path run py_seq_def
        fs_write_def py_try_cleanup py_bind_def py_return_def)
qed

text \<open>(C27) Through the \<open>/convert\<close> route, every raster upload converted to
  \<open>jpg\<close> gets the answer 500, and the only effect of the request is that the
  upload path holds no file afterwards.\<close>

theorem convert_raster_jpg_route_fails:
  assumes "mdict_get (req_files req) ''file'' = Some f"
    and "mdict_get (req_form req) ''convert_type'' = Some ''jpg''"
    and "allowed_file (filename f)" and "ext_of (filename f) \<noteq> ''svg''"
  shows "\<exists>e. convert secure req s =
           (Inr (500, Error (ConvertError e)), s(path_join UPLOAD_FOLDER (secure (filename f)) := None))"
  using assms allowed_file_nonempty[OF assms(3)]
  by (simp add: convert_def Let_def convert_image_app_def py_simps py_try_cleanup
      split: option.splits)

lemma collect_frames_length:
  "collect_frames us acc = Inr (Frames ims) \<Longrightarrow>
   length ims \<le> length acc + length (filter (\<lambda>u. filename u \<noteq> []) us)"
  by (induction us acc rule: collect_frames.induct) (fastforce split: if_splits option.splits)+

lemma collect_frames_decoded:
  "map (\<lambda>u. decode_blob (content u)) us = map Some ims \<Longrightarrow>
   \<forall>u \<in> set us. filename u \<noteq> [] \<and> allowed_file (filename u) \<Longrightarrow>
   collect_frames us acc = Inr (Frames (acc @ map convert_rgba ims))"
  by (induction us arbitrary: ims acc) auto

text \<open>(C8) With fewer than two uploaded files that have a name, no GIF is made: the route
  answers with an error and the file system is unchanged.\<close>

theorem merge_gif_too_few:
  assumes "length (filter (\<lambda>u. filename u \<noteq> []) (mdict_getlist (req_files req) ''files'')) < 2"
  shows "snd (merge_gif hex req s) = s \<and> (\<exists>c m. fst (merge_gif hex req s) = Inr (c, Error m))"
proof -
  have "\<And>ims. collect_frames (mdict_getlist (req_files req) ''files'') [] = Inr (Frames ims) \<Longrightarrow>
           length ims < 2"
    using assms collect_frames_length[of _ "[]"] by fastforce
  then show ?thesis
    by (auto simp: merge_gif_def Let_def py_simps split: option.splits sum.splits loop_exit.splits)
qed

text \<open>(C9) When every uploaded file has an allowed name and decodes, and there are at least
  two, the route writes one GIF whose frames are the decoded images converted to RGBA, in
  upload order, all with the one duration of the form, and answers 200 with its name.\<close>

theorem merge_gif_frames_in_order:
  assumes "mdict_getlist (req_files req) ''files'' = us" and "2 \<le> length us"
    and "\<forall>u \<in> set us. filename u \<noteq> [] \<and> allowed_file (filename u)"
    and "map (\<lambda>u. decode_blob (content u)) us = map Some ims"
    and "form_duration req = Some d"
  shows "merge_gif hex req s =
    (Inr (200, Success GifOk (gif_name hex) (''/download/gif/'' @ gif_name hex)),
     s(gif_path hex \<mapsto> Anim (map convert_rgba ims) d))"
proof -
  from assms(4) have "length ims = length us" by (metis length_map)
  moreover from assms(1,2) have "mdict_getlist (req_files req) ''files'' \<noteq> []" by auto
  then have "''files'' \<in> fst ` set (req_files req)" by (rule mdict_getlist_key)
  ultimately show ?thesis
    using assms collect_frames_decoded[of us ims "[]"]
    by (auto simp: merge_gif_def py_simps)
qed

lemma collect_frames_undecodable:
  "\<forall>v \<in> set us. filename v \<noteq> [] \<longrightarrow> allowed_file (filename v) \<and> decode_blob (content v) \<noteq> None \<Longrightarrow>
   filename u \<noteq> [] \<Longrightarrow> allowed_file (filename u) \<Longrightarrow> decode_blob (content u) = None \<Longrightarrow>
   collect_frames (us @ u # vs) acc = Inl (UnidentifiedImageError (filename u))"
  by (induction us arbitrary: acc) auto

text \<open>(C10) The GIF route does not check every extension before decoding, as the
  specification orders (classify, then convert): it decodes each file when the loop reaches
  it. When the first upload that does not pass is a file with an allowed name whose
  content does not decode, the answer is 500 with the decoding error and nothing is
  written, whatever files follow it, also files of a refused type, for which the
  specification asks for the unsupported-format answer.\<close>

theorem merge_gif_decodes_before_checking:
  assumes "mdict_getlist (req_files req) ''files'' = us @ u # vs"
    and "\<forall>v \<in> set us. filename v \<noteq> [] \<longrightarrow> allowed_file (filename v) \<and> decode_blob (content v) \<noteq> None"
    and "filename u \<noteq> []" and "allowed_file (filename u)" and "decode_blob (content u) = None"
    and "form_duration req \<noteq> None"
  shows "merge_gif hex req s = (Inr (500, Error (GifFailed (UnidentifiedImageError (filename u)))), s)"
proof -
  have "''files'' \<in> fst ` set (req_files req)"
    using assms(1) mdict_getlist_key[of "req_files req" "''files''"] by simp
  with assms collect_frames_undecodable[OF assms(2-5), of vs "[]"] show ?thesis
    by (auto simp: merge_gif_def Let_def py_simps)
qed

text \<open>(C11) The DWG route never reports success: every answer is an error (the conversion
  function is unbound in the web application), and every file is afterwards as it was or
  removed; the uploaded drawing is deleted by the \<open>finally\<close> block.\<close>

theorem dwg_to_pdf_never_succeeds:
  "(\<exists>c m. fst (dwg_to_pdf secure req s) = Inr (c, Error m)) \<and>
   (\<forall>q. snd (dwg_to_pdf secure req s) q = s q \<or> snd (dwg_to_pdf secure req s) q = None)"
  by (auto simp: dwg_to_pdf_def Let_def py_simps convert_dwg_to_pdf_app_def split: option.splits)

end
