(* ===== verification/Concurrency.thy ===== *)
theory Concurrency
  imports Routes
begin

text \<open>
  Concurrent requests to \<open>/convert\<close>. The Flask server of \<open>src/app.py\<close> handles requests
  in threads that share the \<open>uploads\<close> and \<open>outputs\<close> directories. A request is cut into
  the steps at which another thread can run in between: saving the upload
  (\<open>file.save(input_path)\<close>), the conversion helper call, and the \<open>finally\<close> clean-up;
  each library call is atomic. A job is either finished with the route's result or waits
  to run its next step (\<open>job\<close>). \<open>convert_job\<close> is \<open>convert\<close> cut this way; run alone
  it is \<open>convert\<close>. \<open>interleave\<close> runs two jobs under a schedule that says, step by
  step, which thread runs.
\<close>

datatype job = Done "exn + response" | Step "fs \<Rightarrow> job \<times> fs"

text \<open>The part of \<open>convert\<close> after the upload is saved: the helper call (one step) and the
  \<open>finally\<close> block with the answer (one step).\<close>

definition convert_tail :: "string \<Rightarrow> path \<Rightarrow> path \<Rightarrow> string \<Rightarrow> string \<Rightarrow> job" where
  "convert_tail ext input_path output_path convert_type output_filename =
     Step (\<lambda>s. case (if ext = ''svg'' then convert_svg input_path output_path convert_type
                      else convert_image_app input_path output_path convert_type) s of
       (Inl e, s') \<Rightarrow>
         (Step (\<lambda>t. (Done (Inr (500, Error (ConvertError e))), snd (remove_if_exists input_path t))), s')
     | (Inr _, s') \<Rightarrow>
         (Step (\<lambda>t. (Done (Inr (200, Success ConvertOk output_filename
                        (''/download/'' @ convert_type @ ''/'' @ output_filename))),
                     snd (remove_if_exists input_path t))), s'))"

definition convert_job :: "(string \<Rightarrow> string) \<Rightarrow> request \<Rightarrow> job" where
  "convert_job secure_filename req =
     (case mdict_get (req_files req) ''file'' of
        None \<Rightarrow> Done (Inr (400, Error NoFilePart))
      | Some file \<Rightarrow>
        if filename file = [] then Done (Inr (400, Error NoSelectedFile))
        else (case mdict_get (req_form req) ''convert_type'' of
          None \<Rightarrow> Done (Inr (400, Error InvalidConvertType))
        | Some convert_type \<Rightarrow>
          if convert_type \<notin> {''webp'', ''png'', ''jpg''} then Done (Inr (400, Error InvalidConvertType))
          else if filename file \<noteq> [] \<and> allowed_file (filename file) then
            (let ext = ext_of (filename file);
                 fname = secure_filename (filename file);
                 input_path = path_join UPLOAD_FOLDER fname;
                 base_name = fst (splitext fname);
                 output_filename = base_name @ ''.'' @ convert_type;
                 output_dir = path_join OUTPUT_FOLDER convert_type;
                 output_path = path_join output_dir output_filename in
             Step (\<lambda>s. (convert_tail ext input_path output_path convert_type output_filename,
                        snd (fs_write input_path (content file) s))))
          else Done (Inr (400, Error UnsupportedFileType))))"

text \<open>Running one job alone, with fuel: a \<open>/convert\<close> job has at most three steps.\<close>

fun run_alone :: "nat \<Rightarrow> job \<Rightarrow> fs \<Rightarrow> (exn + response) option \<times> fs" where
  "run_alone n (Done r) s = (Some r, s)"
| "run_alone 0 (Step f) s = (None, s)"
| "run_alone (Suc n) (Step f) s = (case f s of (j, s') \<Rightarrow> run_alone n j s')"

fun step :: "job \<Rightarrow> fs \<Rightarrow> job \<times> fs" where
  "step (Done r) s = (Done r, s)"
| "step (Step f) s = f s"

text \<open>Two threads under a schedule: \<open>True\<close> runs a step of the first job, \<open>False\<close> a
  step of the second; a finished job does nothing.\<close>

fun interleave :: "bool list \<Rightarrow> job \<Rightarrow> job \<Rightarrow> fs \<Rightarrow> job \<times> job \<times> fs" where
  "interleave [] a b s = (a, b, s)"
| "interleave (True # sch) a b s = (case step a s of (a', s') \<Rightarrow> interleave sch a' b s')"
| "interleave (False # sch) a b s = (case step b s of (b', s') \<Rightarrow> interleave sch a b' s')"

abbreviation upload_req :: "string \<Rightarrow> blob \<Rightarrow> string \<Rightarrow> request" where
  "upload_req n b ct \<equiv> \<lparr>req_files = [(''file'', \<lparr>filename = n, content = b\<rparr>)], req_form = [(''convert_type'', ct)]\<rparr>"

abbreviation img_a :: image where
  "img_a \<equiv> \<lparr>img_mode = Mode_RGB, img_size = (1, 1), img_pixels = [(255, 0, 0, 255)]\<rparr>"

abbreviation img_b :: image where
  "img_b \<equiv> \<lparr>img_mode = Mode_RGB, img_size = (1, 1), img_pixels = [(0, 0, 255, 255)]\<rparr>"

subsection \<open>The cut is faithful\<close>

lemma run_alone_tail:
  fixes ext i out ct ofn :: string
  defines "M \<equiv> py_bind (py_try (py_seq (if ext = ''svg'' then convert_svg i out ct else convert_image_app i out ct)
                                     (py_return None))
                             (\<lambda>e. py_return (Some (500, Error (ConvertError e))))
                             (remove_if_exists i))
                     (\<lambda>r. case r of Some resp \<Rightarrow> py_return resp
                       | None \<Rightarrow> py_return (200, Success ConvertOk ofn (''/download/'' @ ct @ ''/'' @ ofn)))"
  shows "run_alone (Suc (Suc 0)) (convert_tail ext i out ct ofn) s = (Some (fst (M s)), snd (M s))"
  unfolding M_def
  by (simp add: convert_tail_def py_try_cleanup py_seq_def py_bind_def py_return_def
      split: prod.splits sum.splits)

text \<open>Cut into its steps, a \<open>/convert\<close> request run alone with three steps of fuel
  gives the answer and the file system of \<open>convert\<close>, on every request and every state.\<close>

lemma convert_job_alone:
  "run_alone 3 (convert_job secure req) s = (Some (fst (convert secure req s)), snd (convert secure req s))"
  by (simp add: convert_job_def convert_def Let_def numeral_3_eq_3 run_alone_tail py_return_def
      py_seq_def fs_write_def split: option.splits)

text \<open>(C28) Two \<open>/convert\<close> requests for uploads with the same secured name
  interfere, whatever the two users upload. Interleaved as save A, save B, convert A, clean
  up A, convert B, clean up B, the first request answers 200 with a link to an output that
  holds the second user's image, and the second answers 500 with \<open>FileNotFoundError\<close>
  because the first removed the upload path they share.\<close>

theorem convert_same_name_race:
  assumes "allowed_file n" and "ext_of n \<noteq> ''svg''" and "ct \<in> {''png'', ''webp''}"
    and "decode_blob bb = Some ib" and "img_mode ib \<noteq> Mode_CMYK"
    and "CHR ''/'' \<notin> set (secure n)"
  shows "\<exists>g. interleave [True, False, True, True, False, False] (convert_job secure (upload_req n ba ct))
                  (convert_job secure (upload_req n bb ct)) s =
       (Done (Inr (200, Success ConvertOk (fst (splitext (secure n)) @ ''.'' @ ct)
                    (''/download/'' @ ct @ ''/'' @ fst (splitext (secure n)) @ ''.'' @ ct))),
        Done (Inr (500, Error (ConvertError (FileNotFoundError (''uploads/'' @ secure n))))),
        s(''outputs/'' @ ct @ ''/'' @ fst (splitext (secure n)) @ ''.'' @ ct \<mapsto> Img g ib,
          ''uploads/'' @ secure n := None))"
proof -
  obtain g where g: "pil_format (py_upper ct) = Some g" "pil_writable g (img_mode ib)"
    using assms(3,5) by (auto simp: str_simps pil_format_def pil_registry_def pil_writable_def)
  have out: "path_join (path_join OUTPUT_FOLDER ct) (fst (splitext (secure n)) @ ''.'' @ ct)
      = ''outputs/'' @ ct @ ''/'' @ fst (splitext (secure n)) @ ''.'' @ ct"
    using assms(3) convert_output_path[OF assms(6), of ct] by auto
  have inp: "path_join UPLOAD_FOLDER (secure n) = ''uploads/'' @ secure n"
    using assms(6) by (rule convert_input_path)
  show ?thesis
    using assms g out inp allowed_file_nonempty[OF assms(1)]
    by (auto simp: convert_job_def convert_tail_def Let_def mdict_get_def convert_image_app_def
        pil_open_def pil_save_def py_simps)
qed

theorem convert_same_name_race_witness:
  "\<exists>g. interleave [True, False, True, True, False, False]
       (convert_job id (upload_req ''a.png'' (Img PNG img_a) ''webp''))
       (convert_job id (upload_req ''a.png'' (Img PNG img_b) ''webp'')) Map.empty
   = (Done (Inr (200, Success ConvertOk ''a.webp'' ''/download/webp/a.webp'')),
      Done (Inr (500, Error (ConvertError (FileNotFoundError ''uploads/a.png'')))),
      [''outputs/webp/a.webp'' \<mapsto> Img g img_b])"
  using convert_same_name_race[of "''a.png''" "''webp''" "Img PNG img_b" img_b id "Img PNG img_a" Map.empty]
  by (simp add: allowed_file_def ALLOWED_EXTENSIONS_def ext_of_def decode_blob_def str_simps)

end

