(* ===== verification/Isolation.thy ===== *)
theory Isolation
  imports Concurrency
begin

text \<open>
  Isolation of concurrent \<open>/convert\<close> jobs. A statement is local to a set of paths when
  its result and its effect on those paths depend only on their contents, and it changes no
  other path (\<open>local_step\<close>); a job is local when each of its steps is (\<open>local_job\<close>).
  The helpers of \<open>src/app.py\<close> are local to their input, output and temporary paths, so
  a \<open>/convert\<close> job is local to the three paths named after its upload
  (\<open>job_paths\<close>). Two local jobs on disjoint sets of paths do not see each other: under
  every schedule each ends as it would alone.
\<close>

definition agree :: "path set \<Rightarrow> fs \<Rightarrow> fs \<Rightarrow> bool" where
  "agree P s t = (\<forall>p \<in> P. s p = t p)"

definition local_step :: "path set \<Rightarrow> (fs \<Rightarrow> 'a \<times> fs) \<Rightarrow> bool" where
  "local_step P f =
     ((\<forall>s t. agree P s t \<longrightarrow> fst (f s) = fst (f t) \<and> agree P (snd (f s)) (snd (f t)))
      \<and> (\<forall>s p. p \<notin> P \<longrightarrow> snd (f s) p = s p))"

inductive local_job :: "path set \<Rightarrow> job \<Rightarrow> bool" where
  local_done: "local_job P (Done r)"
| local_step_job: "local_step P f \<Longrightarrow> (\<forall>s. local_job P (fst (f s))) \<Longrightarrow> local_job P (Step f)"

fun run_n :: "nat \<Rightarrow> job \<Rightarrow> fs \<Rightarrow> job \<times> fs" where
  "run_n 0 j s = (j, s)"
| "run_n (Suc n) j s = (case step j s of (j', s') \<Rightarrow> run_n n j' s')"

definition job_paths :: "(string \<Rightarrow> string) \<Rightarrow> request \<Rightarrow> path set" where
  "job_paths secure_filename req =
     (case (mdict_get (req_files req) ''file'', mdict_get (req_form req) ''convert_type'') of
        (Some file, Some convert_type) \<Rightarrow>
          (let fname = secure_filename (filename file);
               output_path = path_join (path_join OUTPUT_FOLDER convert_type)
                               (fst (splitext fname) @ ''.'' @ convert_type) in
           {path_join UPLOAD_FOLDER fname, output_path, svg_temp_path output_path})
      | _ \<Rightarrow> {})"

inductive_cases local_job_StepE: "local_job P (Step f)"

subsection \<open>Local statements\<close>

lemma agree_refl [simp]: "agree P s s"
  by (simp add: agree_def)

lemma agree_sym: "agree P s t \<Longrightarrow> agree P t s"
  by (simp add: agree_def)

lemma agree_trans: "agree P s t \<Longrightarrow> agree P t u \<Longrightarrow> agree P s u"
  by (simp add: agree_def)

lemma agree_upd: "agree P s t \<Longrightarrow> agree P (s(p := v)) (t(p := v))"
  by (simp add: agree_def)

lemma local_stepI:
  "(\<And>s t. agree P s t \<Longrightarrow> fst (f s) = fst (f t) \<and> agree P (snd (f s)) (snd (f t))) \<Longrightarrow>
   (\<And>s p. p \<notin> P \<Longrightarrow> snd (f s) p = s p) \<Longrightarrow> local_step P f"
  by (simp add: local_step_def)

lemma local_step_same: "local_step P f \<Longrightarrow> agree P s t \<Longrightarrow> fst (f s) = fst (f t)"
  by (simp add: local_step_def)

lemma local_step_agree: "local_step P f \<Longrightarrow> agree P s t \<Longrightarrow> agree P (snd (f s)) (snd (f t))"
  by (simp add: local_step_def)

lemma local_step_frame: "local_step P f \<Longrightarrow> p \<notin> P \<Longrightarrow> snd (f s) p = s p"
  by (simp add: local_step_def)

lemma local_step_mono:
  assumes "local_step P f" and "P \<subseteq> P'"
  shows "local_step P' f"
proof (rule local_stepI)
  fix s t assume st: "agree P' s t"
  then have "agree P s t" using assms(2) by (auto simp: agree_def)
  with assms(1) have "fst (f s) = fst (f t)" and "agree P (snd (f s)) (snd (f t))"
    by (auto dest: local_step_same local_step_agree)
  moreover have "snd (f s) p = snd (f t) p" if "p \<in> P'" "p \<notin> P" for p
    using local_step_frame[OF assms(1) \<open>p \<notin> P\<close>] st that by (simp add: agree_def)
  ultimately show "fst (f s) = fst (f t) \<and> agree P' (snd (f s)) (snd (f t))"
    by (auto simp: agree_def)
next
  fix s p assume "p \<notin> P'"
  with assms show "snd (f s) p = s p" by (auto intro: local_step_frame)
qed

lemma local_return [intro]: "local_step P (py_return x)"
  by (simp add: local_step_def py_return_def)

lemma local_raise [intro]: "local_step P (py_raise e)"
  by (simp add: local_step_def py_raise_def)

lemma local_write [intro]: "p \<in> P \<Longrightarrow> local_step P (fs_write p b)"
  by (auto simp: local_step_def fs_write_def agree_def)

lemma local_read [intro]: "p \<in> P \<Longrightarrow> local_step P (fs_read p)"
  by (auto simp: local_step_def fs_read_def agree_def split: option.splits)

lemma local_remove [intro]: "p \<in> P \<Longrightarrow> local_step P (os_remove p)"
  by (auto simp: local_step_def os_remove_def agree_def domIff)

lemma local_remove_if_exists [intro]: "p \<in> P \<Longrightarrow> local_step P (remove_if_exists p)"
  by (auto simp: local_step_def agree_def)

lemma local_bind [intro]:
  assumes "local_step P m" and "\<And>x. local_step P (f x)"
  shows "local_step P (py_bind m f)"
proof (rule local_stepI)
  fix s t assume st: "agree P s t"
  obtain r s' where ms: "m s = (r, s')" by (metis prod.exhaust)
  obtain t' where mt: "m t = (r, t')" and a': "agree P s' t'"
    using local_step_same[OF assms(1) st] local_step_agree[OF assms(1) st] ms
    by (metis prod.exhaust_sel prod.inject)
  show "fst (py_bind m f s) = fst (py_bind m f t) \<and> agree P (snd (py_bind m f s)) (snd (py_bind m f t))"
    using ms mt a' local_step_same[OF assms(2) a'] local_step_agree[OF assms(2) a']
    by (cases r) (auto simp: py_bind_def)
next
  fix s p assume p: "p \<notin> P"
  obtain r s' where ms: "m s = (r, s')" by (metis prod.exhaust)
  have "s' p = s p" using local_step_frame[OF assms(1) p, of s] ms by simp
  then show "snd (py_bind m f s) p = s p"
    using ms local_step_frame[OF assms(2) p] by (cases r) (auto simp: py_bind_def)
qed

lemma local_seq [intro]: "local_step P m \<Longrightarrow> local_step P n \<Longrightarrow> local_step P (py_seq m n)"
  by (simp add: py_seq_def local_bind)

lemma local_step_run:
  assumes "local_step P m" and "agree P s t"
  obtains r s' t' where "m s = (r, s')" and "m t = (r, t')" and "agree P s' t'"
proof -
  obtain r s' where ms: "m s = (r, s')" by (metis prod.exhaust)
  obtain r' t' where mt: "m t = (r', t')" by (metis prod.exhaust)
  from local_step_same[OF assms] local_step_agree[OF assms] ms mt
  have "r' = r" and "agree P s' t'" by auto
  with ms mt that show ?thesis by blast
qed

lemma local_finally:
  assumes "local_step P fin" and "agree P s t"
  shows "fst (py_finally (r, s) fin) = fst (py_finally (r, t) fin)
       \<and> agree P (snd (py_finally (r, s) fin)) (snd (py_finally (r, t) fin))"
proof -
  obtain u s' t' where "fin s = (u, s')" "fin t = (u, t')" "agree P s' t'"
    using local_step_run[OF assms] by blast
  then show ?thesis by (cases u) (auto simp: py_finally_def)
qed

lemma local_finally_frame:
  "local_step P fin \<Longrightarrow> p \<notin> P \<Longrightarrow> snd (py_finally (r, s) fin) p = s p"
  using local_step_frame[of P fin p s]
  by (auto simp: py_finally_def split: prod.splits sum.splits)

lemma local_try [intro]:
  assumes "local_step P body" and "\<And>e. local_step P (h e)" and "local_step P fin"
  shows "local_step P (py_try body h fin)"
proof (rule local_stepI)
  fix s t assume st: "agree P s t"
  obtain r s' t' where bs: "body s = (r, s')" and bt: "body t = (r, t')" and a: "agree P s' t'"
    using local_step_run[OF assms(1) st] by blast
  show "fst (py_try body h fin s) = fst (py_try body h fin t)
      \<and> agree P (snd (py_try body h fin s)) (snd (py_try body h fin t))"
  proof (cases r)
    case (Inl e)
    obtain r2 s2 t2 where "h e s' = (r2, s2)" "h e t' = (r2, t2)" "agree P s2 t2"
      using local_step_run[OF assms(2) a] by blast
    with Inl bs bt show ?thesis by (simp add: py_try_def local_finally[OF assms(3)])
  next
    case (Inr x)
    with bs bt a show ?thesis by (simp add: py_try_def local_finally[OF assms(3)])
  qed
next
  fix s p assume p: "p \<notin> P"
  obtain r s' where bs: "body s = (r, s')" by (metis prod.exhaust)
  have s': "s' p = s p" using local_step_frame[OF assms(1) p, of s] bs by simp
  show "snd (py_try body h fin s) p = s p"
  proof (cases r)
    case (Inl e)
    obtain r2 s2 where "h e s' = (r2, s2)" by (metis prod.exhaust)
    moreover have "snd (h e s') p = s' p" by (rule local_step_frame[OF assms(2) p])
    ultimately show ?thesis
      using Inl bs s' local_finally_frame[OF assms(3) p, of r2 s2] by (simp add: py_try_def)
  next
    case (Inr x)
    then show ?thesis
      using bs s' local_finally_frame[OF assms(3) p, of "Inr x" s'] by (simp add: py_try_def)
  qed
qed

subsection \<open>The library calls and the helpers are local\<close>

lemma local_pil_open [intro]: "p \<in> P \<Longrightarrow> local_step P (pil_open p)"
  unfolding pil_open_def by (intro local_bind local_read) (auto split: option.split)

lemma local_pil_save [intro]: "p \<in> P \<Longrightarrow> local_step P (pil_save im p name)"
  by (auto simp: pil_save_def split: option.splits)

lemma local_svg2png [intro]: "url \<in> P \<Longrightarrow> out \<in> P \<Longrightarrow> local_step P (svg2png url out)"
  unfolding svg2png_def by (intro local_bind local_read) (auto split: blob.split)

lemma local_convert_image_app:
  "i \<in> P \<Longrightarrow> out \<in> P \<Longrightarrow> local_step P (convert_image_app i out ct)"
  by (auto simp: convert_image_app_def Let_def)

lemma local_convert_svg:
  "i \<in> P \<Longrightarrow> out \<in> P \<Longrightarrow> svg_temp_path out \<in> P \<Longrightarrow> local_step P (convert_svg i out ct)"
  by (auto simp: convert_svg_def Let_def)

lemma local_map:
  "local_step P m \<Longrightarrow> local_step P (\<lambda>s. (k (fst (m s)), snd (m s)))"
  by (simp add: local_step_def)

lemma local_job_final: "local_step P m \<Longrightarrow> local_job P (Step (\<lambda>s. (Done r, snd (m s))))"
  using local_map[of P m "\<lambda>_. Done r"] by (intro local_step_job) (auto intro: local_done)

lemma local_convert_tail:
  assumes "i \<in> P" and "out \<in> P" and "svg_temp_path out \<in> P"
  shows "local_job P (convert_tail ext i out ct ofn)"
proof -
  let ?H = "if ext = ''svg'' then convert_svg i out ct else convert_image_app i out ct"
  let ?k = "\<lambda>r. case r of
      Inl e \<Rightarrow> Step (\<lambda>t. (Done (Inr (500, Error (ConvertError e))), snd (remove_if_exists i t)))
    | Inr _ \<Rightarrow> Step (\<lambda>t. (Done (Inr (200, Success ConvertOk ofn (''/download/'' @ ct @ ''/'' @ ofn))),
                          snd (remove_if_exists i t)))"
  have H: "local_step P ?H"
    using assms local_convert_svg local_convert_image_app by simp
  have tail: "convert_tail ext i out ct ofn = Step (\<lambda>s. (?k (fst (?H s)), snd (?H s)))"
    by (simp add: convert_tail_def fun_eq_iff split: prod.split sum.split)
  have k: "local_job P (?k r)" for r
    using local_job_final[OF local_remove_if_exists[OF assms(1)]] by (simp split: sum.split)
  show ?thesis
    unfolding tail by (intro local_step_job local_map H allI) (simp only: fst_conv k)
qed

lemma local_convert_job: "local_job (job_paths secure req) (convert_job secure req)"
  by (auto simp: convert_job_def job_paths_def Let_def
      intro!: local_job.intros local_map local_write local_convert_tail split: option.split)

subsection \<open>Local jobs run as if alone\<close>

lemma local_job_step:
  "local_job P j \<Longrightarrow> local_step P (step j) \<and> (\<forall>s. local_job P (fst (step j s)))"
  by (induction rule: local_job.induct) (auto simp: local_step_def local_job.intros)

lemma run_n_agree:
  "local_job P j \<Longrightarrow> agree P s t \<Longrightarrow>
   fst (run_n n j s) = fst (run_n n j t) \<and> agree P (snd (run_n n j s)) (snd (run_n n j t))"
proof (induction n arbitrary: j s t)
  case 0
  then show ?case by simp
next
  case (Suc n)
  obtain j' s' t' where "step j s = (j', s')" "step j t = (j', t')" "agree P s' t'"
    using local_step_run[of P "step j" s t] local_job_step[OF Suc.prems(1)] Suc.prems(2) by blast
  moreover have "local_job P j'"
    using local_job_step[OF Suc.prems(1)] calculation(1) by (metis fst_conv)
  ultimately show ?case using Suc.IH by simp
qed

text \<open>The first job's view of an interleaving: its state is that of running it alone for as
  many steps as the schedule gives it, from any state that agrees with the start on its
  paths, and it agrees with that run on its paths.\<close>

lemma interleave_first:
  assumes "local_job P a" and "local_job Q b" and "P \<inter> Q = {}" and "agree P s t"
  shows "fst (interleave sch a b s) = fst (run_n (length (filter id sch)) a t)
       \<and> agree P (snd (snd (interleave sch a b s))) (snd (run_n (length (filter id sch)) a t))"
  using assms
proof (induction sch a b s arbitrary: t rule: interleave.induct)
  case (1 a b s)
  then show ?case by simp
next
  case (2 sch a b s)
  obtain a' s' t' where "step a s = (a', s')" "step a t = (a', t')" "agree P s' t'"
    using local_step_run[of P "step a" s t] local_job_step[OF "2.prems"(1)] "2.prems"(4) by blast
  moreover have "local_job P a'"
    using local_job_step[OF "2.prems"(1)] calculation(1) by (metis fst_conv)
  ultimately show ?case using "2.IH" "2.prems"(2,3) by simp
next
  case (3 sch a b s)
  obtain b' s' where bs: "step b s = (b', s')" by (metis prod.exhaust)
  have "agree P s' s"
    using local_step_frame[of Q "step b" _ s] local_job_step[OF "3.prems"(2)] "3.prems"(3) bs
    unfolding agree_def by (metis disjoint_iff snd_conv)
  then have "agree P s' t" using "3.prems"(4) by (rule agree_trans)
  moreover have "local_job Q b'"
    using local_job_step[OF "3.prems"(2)] bs by (metis fst_conv)
  ultimately show ?case using "3.IH"[OF bs[symmetric]] "3.prems"(1,3) bs by simp
qed

lemma interleave_swap:
  "interleave (map Not sch) b a s = (case interleave sch a b s of (a', b', s') \<Rightarrow> (b', a', s'))"
  by (induction sch a b s rule: interleave.induct) (simp_all split: prod.split)

lemma interleave_second:
  assumes "local_job P a" and "local_job Q b" and "P \<inter> Q = {}" and "agree Q s t"
  shows "fst (snd (interleave sch a b s)) = fst (run_n (length (filter Not sch)) b t)
       \<and> agree Q (snd (snd (interleave sch a b s))) (snd (run_n (length (filter Not sch)) b t))"
proof -
  have "length (filter id (map Not sch)) = length (filter Not sch)"
    by (induction sch) auto
  moreover have "Q \<inter> P = {}" using assms(3) by blast
  ultimately show ?thesis
    using interleave_first[OF assms(2,1) _ assms(4), of "map Not sch"] interleave_swap[of sch b a s]
    by (simp split: prod.splits)
qed

lemma interleave_frame:
  "local_job P a \<Longrightarrow> local_job Q b \<Longrightarrow> p \<notin> P \<Longrightarrow> p \<notin> Q \<Longrightarrow>
   snd (snd (interleave sch a b s)) p = s p"
proof (induction sch a b s rule: interleave.induct)
  case (2 sch a b s)
  then show ?case
    using local_job_step[OF "2.prems"(1)] local_step_frame[of P "step a" p s]
    by (auto split: prod.split) (metis fst_conv snd_conv)
next
  case (3 sch a b s)
  then show ?case
    using local_job_step[OF "3.prems"(2)] local_step_frame[of Q "step b" p s]
    by (auto split: prod.split) (metis fst_conv snd_conv)
qed simp

lemma run_n_Done [simp]: "run_n n (Done r) s = (Done r, s)"
  by (induction n) auto

lemma run_n_add: "run_n (m + n) j s = (case run_n m j s of (j', s') \<Rightarrow> run_n n j' s')"
  by (induction m arbitrary: j s) (auto split: prod.split)

lemma run_n_Step: "run_n (Suc n) (Step f) s = (case f s of (j', s') \<Rightarrow> run_n n j' s')"
  by simp

lemma run_n_tail:
  fixes ext i out ct ofn :: string
  defines "M \<equiv> py_bind (py_try (py_seq (if ext = ''svg'' then convert_svg i out ct else convert_image_app i out ct)
                                     (py_return None))
                             (\<lambda>e. py_return (Some (500, Error (ConvertError e))))
                             (remove_if_exists i))
                     (\<lambda>r. case r of Some resp \<Rightarrow> py_return resp
                       | None \<Rightarrow> py_return (200, Success ConvertOk ofn (''/download/'' @ ct @ ''/'' @ ofn)))"
  shows "run_n (Suc (Suc 0)) (convert_tail ext i out ct ofn) s = (Done (fst (M s)), snd (M s))"
  unfolding M_def
  by (simp add: convert_tail_def py_try_cleanup py_seq_def py_bind_def py_return_def
      split: prod.splits sum.splits)

lemma run_n_convert_job:
  assumes "3 \<le> n"
  shows "run_n n (convert_job secure req) s = (Done (fst (convert secure req s)), snd (convert secure req s))"
proof -
  have "run_n 3 (convert_job secure req) s = (Done (fst (convert secure req s)), snd (convert secure req s))"
    by (simp add: convert_job_def convert_def Let_def numeral_3_eq_3 run_n_Step run_n_tail py_return_def
        py_seq_def fs_write_def del: run_n.simps(2) split: option.splits)
  moreover obtain k where "n = 3 + k" using assms by (metis le_add_diff_inverse)
  ultimately show ?thesis by (simp add: run_n_add)
qed

text \<open>(C29) Two \<open>/convert\<close> requests whose upload, output and temporary paths are
  distinct do not interfere: under every schedule that gives each thread its three steps,
  each answers as it would alone, the files on its paths are those it would leave alone, and
  no other file changes.\<close>

theorem convert_jobs_isolated:
  assumes "job_paths sa ra \<inter> job_paths sb rb = {}"
    and "3 \<le> length (filter id sch)" and "3 \<le> length (filter Not sch)"
  shows "fst (interleave sch (convert_job sa ra) (convert_job sb rb) s) = Done (fst (convert sa ra s))
       \<and> fst (snd (interleave sch (convert_job sa ra) (convert_job sb rb) s)) = Done (fst (convert sb rb s))
       \<and> agree (job_paths sa ra) (snd (snd (interleave sch (convert_job sa ra) (convert_job sb rb) s)))
             (snd (convert sa ra s))
       \<and> agree (job_paths sb rb) (snd (snd (interleave sch (convert_job sa ra) (convert_job sb rb) s)))
             (snd (convert sb rb s))
       \<and> (\<forall>p. p \<notin> job_paths sa ra \<union> job_paths sb rb \<longrightarrow>
             snd (snd (interleave sch (convert_job sa ra) (convert_job sb rb) s)) p = s p)"
  using interleave_first[OF local_convert_job local_convert_job assms(1) agree_refl, of sch s]
    interleave_second[OF local_convert_job local_convert_job assms(1) agree_refl, of sch s]
    interleave_frame[OF local_convert_job local_convert_job, of _ sa ra sb rb sch s]
    run_n_convert_job[OF assms(2), of sa ra s] run_n_convert_job[OF assms(3), of sb rb s]
  by simp

theorem convert_jobs_isolated_witness:
  "fst (interleave [True, False, True, False, True, False]
          (convert_job id (upload_req ''a.png'' (Img PNG img_a) ''webp''))
          (convert_job id (upload_req ''b.png'' (Img PNG img_b) ''png'')) Map.empty)
     = Done (fst (convert id (upload_req ''a.png'' (Img PNG img_a) ''webp'') Map.empty))
   \<and> fst (snd (interleave [True, False, True, False, True, False]
          (convert_job id (upload_req ''a.png'' (Img PNG img_a) ''webp''))
          (convert_job id (upload_req ''b.png'' (Img PNG img_b) ''png'')) Map.empty))
     = Done (fst (convert id (upload_req ''b.png'' (Img PNG img_b) ''png'') Map.empty))"
  using convert_jobs_isolated[of id "upload_req ''a.png'' (Img PNG img_a) ''webp''"
      id "upload_req ''b.png'' (Img PNG img_b) ''png''" "[True, False, True, False, True, False]" Map.empty]
  by (simp add: job_paths_def mdict_get_def str_simps Let_def svg_temp_path_def UPLOAD_FOLDER_def
      OUTPUT_FOLDER_def del: interleave.simps)

end
