(* ===== verification/Converter.thy ===== *)
theory Converter
  imports Libs
begin

text \<open>
  The stand-alone conversion module \<open>src/converter.py\<close>. \<open>convert_image\<close> dispatches on
  the input's extension (\<open>os.path.splitext\<close>, lower-cased): an SVG input goes to CairoSVG
  for PNG and PDF, and through a temporary PNG for JPEG; any other input is opened by
  Pillow and re-encoded, flattened to RGB for JPEG. \<open>convert_dwg_to_pdf\<close> drives
  AutoCAD over COM: it writes a DSD publishing description next to the drawing and asks
  AutoCAD to publish it. The COM calls are the external CAD backend of the specification;
  they are the fields of \<open>cad_backend\<close>, a parameter of the model.
\<close>

definition convert_image :: "path \<Rightarrow> path \<Rightarrow> string \<Rightarrow> unit py" where
  "convert_image input_path output_path format =
     (let ext = py_lower (snd (splitext input_path)) in
      if ext = ''.svg'' then
        (if format = ''png'' then svg2png input_path output_path
         else if format = ''pdf'' then svg2pdf input_path output_path
         else if format = ''jpg'' then
           (let tmp_png = py_replace ''.jpg'' ''.png'' output_path in
            py_seq (svg2png input_path tmp_png)
              (py_seq (py_bind (pil_open tmp_png)
                         (\<lambda>img. pil_save (convert_rgb img) output_path ''JPEG''))
                 (os_remove tmp_png)))
         else py_raise (ValueError ''Unsupported SVG target format.''))
      else py_bind (pil_open input_path) (\<lambda>img.
             if format = ''jpg'' then pil_save (convert_rgb img) output_path ''JPEG''
             else pil_save img output_path (py_upper format)))"

subsection \<open>DWG to PDF through the CAD backend\<close>

text \<open>
  \<open>com_available\<close> says whether \<open>pythoncom\<close> and \<open>win32com\<close> were imported (the
  module swallows the \<open>ImportError\<close>, so on other hosts the first use of
  \<open>pythoncom\<close> raises \<open>NameError\<close>); the other fields are the COM calls:
  \<open>Dispatch("AutoCAD.Application")\<close>, \<open>Documents.Open(dwg_path)\<close> with
  \<open>SetVariable\<close>, \<open>Publish.PublishToWeb(dsd_path)\<close>, and \<open>Close\<close>, \<open>Quit\<close>,
  \<open>CoUninitialize\<close> together as \<open>cad_close\<close>. Paths are read with the POSIX
  \<open>os.path\<close> of \<open>PyLib\<close>, though the function runs only on Windows, where
  backslash separators would also split.
\<close>

record cad_backend =
  com_available :: bool
  cad_dispatch :: "unit py"
  cad_open :: "path \<Rightarrow> unit py"
  cad_publish :: "path \<Rightarrow> unit py"
  cad_close :: "unit py"

definition dsd_lines :: "path \<Rightarrow> path \<Rightarrow> string list" where
  "dsd_lines dwg_path pdf_output_path =
     [''[DWF6Version]'', ''Ver=1'', ''[DWF6MinorVersion]'', ''MinorVer=1'', ''[Sheet1]'',
      ''DWG='' @ dwg_path, ''Layout=*'', ''OriginalSheetPath='' @ dwg_path, ''Has PlotStyles=0'',
      ''[Target]'', ''Type=6'', ''DWF='' @ pdf_output_path, ''OUT='' @ dirname pdf_output_path,
      ''PWD='', ''[AutoCAD Block Data]'', ''IncludeLayer=TRUE'', ''PromptForDwfName=FALSE'',
      ''RememberSheetSet=FALSE'']"

definition dsd_content :: "path \<Rightarrow> path \<Rightarrow> string" where
  "dsd_content dwg_path pdf_output_path =
     concat (map (\<lambda>l. l @ ''\<newline>'') (dsd_lines dwg_path pdf_output_path))"

definition dsd_path_of :: "path \<Rightarrow> path" where
  "dsd_path_of dwg_path = fst (splitext dwg_path) @ ''.dsd''"

definition convert_dwg_to_pdf :: "cad_backend \<Rightarrow> path \<Rightarrow> path \<Rightarrow> unit py" where
  "convert_dwg_to_pdf cad dwg_path pdf_output_path =
     (if \<not> com_available cad then py_raise (NameError ''pythoncom'')
      else py_seq (cad_dispatch cad)
        (py_seq (cad_open cad dwg_path)
          (let dsd_path = dsd_path_of dwg_path in
           py_seq (fs_write dsd_path (Text (dsd_content dwg_path pdf_output_path)))
             (py_seq (cad_publish cad dsd_path) (cad_close cad)))))"

text \<open>
  The reader side of a DSD file, as the CAD backend reads it: the value of the first line
  \<open>key=value\<close> with the given key.
\<close>

fun ini_value :: "string \<Rightarrow> string list \<Rightarrow> string option" where
  "ini_value key [] = None"
| "ini_value key (l # ls) =
     (if take (Suc (length key)) l = key @ ''='' then Some (drop (Suc (length key)) l)
      else ini_value key ls)"

subsection \<open>Behaviour of \<open>convert_image\<close>\<close>

lemma svg2png_ok: "s i = Some (Svg im) \<Longrightarrow> svg2png i t s = (Inr (), s(t \<mapsto> Img PNG im))"
  by (simp add: svg2png_def fs_read_def fs_write_def)

text \<open>
  The SVG to JPEG pipeline on an SVG input, every step of it: the temporary PNG is written
  at \<open>output_path.replace('.jpg', '.png')\<close>, the JPEG at the output path, and the
  temporary path is removed last.
\<close>

lemma convert_image_svg_jpg:
  assumes "py_lower (snd (splitext i)) = ''.svg''" and "s i = Some (Svg im)"
  shows "convert_image i out ''jpg'' s =
    (let t = py_replace ''.jpg'' ''.png'' out in
     (Inr (), s(t \<mapsto> Img PNG im, out \<mapsto> Img JPEG (convert_rgb im), t := None)))"
  using assms
  by (simp add: convert_image_def Let_def svg2png_ok py_seq_def pil_open_written pil_save_rgb_ok
      pil_format_def pil_registry_def os_remove_def)

text \<open>(C5) A successful conversion to \<open>jpg\<close> leaves at the output path, if anything,
  a JPEG whose image is in mode RGB: no alpha band reaches the JPEG encoder, on the raster
  path and on the SVG path alike.\<close>

lemma convert_image_jpg_rgb:
  assumes "convert_image i out ''jpg'' s = (Inr (), s')" and "s' out = Some b"
  shows "\<exists>im. b = Img JPEG im \<and> img_mode im = Mode_RGB"
  using assms
  by (auto simp: convert_image_def Let_def py_simps
      split: if_splits option.splits blob.splits sum.splits prod.splits)

text \<open>(C6) When the output path contains no \<open>.jpg\<close> (for instance \<open>x.jpeg\<close>), the
  temporary PNG path is the output path itself: the SVG to JPEG conversion reports success
  and the final \<open>os.remove(tmp_png)\<close> deletes the JPEG it has just written.\<close>

lemma convert_image_svg_jpg_self_delete:
  assumes "py_lower (snd (splitext i)) = ''.svg''" and "s i = Some (Svg im)"
    and "py_replace ''.jpg'' ''.png'' out = out"
  shows "convert_image i out ''jpg'' s = (Inr (), s(out := None))"
  using convert_image_svg_jpg[of i s im out] assms by simp

subsection \<open>Behaviour of \<open>convert_dwg_to_pdf\<close>\<close>

text \<open>(C13) The DSD file names the drawing and the PDF it asks for: read back line by
  line, its \<open>DWG\<close> key gives the drawing path and its \<open>DWF\<close> key the output path,
  provided neither path contains a line break.\<close>

lemma dsd_roundtrip:
  assumes "CHR ''\<newline>'' \<notin> set dwg" and "CHR ''\<newline>'' \<notin> set pdf"
  shows "ini_value ''DWG'' (split_on CHR ''\<newline>'' (dsd_content dwg pdf)) = Some dwg
       \<and> ini_value ''DWF'' (split_on CHR ''\<newline>'' (dsd_content dwg pdf)) = Some pdf"
proof -
  have "CHR ''\<newline>'' \<notin> set (dirname pdf)" using assms(2) set_dirname by blast
  with assms have "split_on CHR ''\<newline>'' (dsd_content dwg pdf) = dsd_lines dwg pdf @ [[]]"
    unfolding dsd_content_def by (intro split_on_lines) (simp add: dsd_lines_def)
  then show ?thesis by (simp add: dsd_lines_def)
qed

text \<open>(C12) The DSD file is an intermediate artifact that is never released: after a
  successful conversion whose publishing and closing steps leave the DSD path alone, the
  file is still there with the content written.\<close>

lemma convert_dwg_leaves_dsd:
  assumes "com_available cad"
    and "convert_dwg_to_pdf cad dwg pdf s = (Inr (), s')"
    and "\<And>q t r t'. cad_publish cad q t = (r, t') \<Longrightarrow> t' (dsd_path_of dwg) = t (dsd_path_of dwg)"
    and "\<And>t r t'. cad_close cad t = (r, t') \<Longrightarrow> t' (dsd_path_of dwg) = t (dsd_path_of dwg)"
  shows "s' (dsd_path_of dwg) = Some (Text (dsd_content dwg pdf))"
proof -
  from assms(1,2) obtain t1 t2 t3 where
    "cad_dispatch cad s = (Inr (), t1)" "cad_open cad dwg t1 = (Inr (), t2)"
    "cad_publish cad (dsd_path_of dwg) (t2(dsd_path_of dwg \<mapsto> Text (dsd_content dwg pdf))) = (Inr (), t3)"
    "cad_close cad t3 = (Inr (), s')"
    by (auto simp: convert_dwg_to_pdf_def py_simps Let_def split: prod.splits sum.splits)
  then show ?thesis using assms(3,4) by (metis fun_upd_same)
qed

text \<open>(C14) The COM session is not released on failure: when publishing raises, the
  exception propagates as it is (not as a backend error), and the state is the one
  publishing left. \<open>doc.Close\<close>, \<open>acad.Quit\<close> and \<open>CoUninitialize\<close> are never
  run, so the drawing stays open in a running AutoCAD, and the DSD file stays on disk.\<close>

lemma convert_dwg_publish_error:
  assumes "com_available cad"
    and "cad_dispatch cad s = (Inr (), s1)" and "cad_open cad dwg s1 = (Inr (), s2)"
    and "cad_publish cad (dsd_path_of dwg) (s2(dsd_path_of dwg \<mapsto> Text (dsd_content dwg pdf)))
           = (Inl e, s3)"
  shows "convert_dwg_to_pdf cad dwg pdf s = (Inl e, s3)"
  using assms by (simp add: convert_dwg_to_pdf_def py_simps Let_def)

end
