(* ===== verification/Dispatch.thy ===== *)
theory Dispatch
  imports Converter
begin

text \<open>
  The dispatch table of the specification (section 4.2) as an abstract contract, and how
  \<open>convert_image\<close> of \<open>src/converter.py\<close> implements it. The table says which
  (source kind, target) pairs have a strategy: raster to png, jpg, webp; vector to png, jpg,
  pdf; drawing to pdf. The contract is stated on valid fixtures: an SVG document under an
  \<open>.svg\<close> name, or a decodable raster in mode RGB under any other name. On vector inputs
  the code succeeds exactly on the table's pairs; on raster inputs it succeeds on every
  pair of the table and also on the targets \<open>pdf\<close> and \<open>gif\<close>, which Pillow
  registers and the table refuses.
\<close>

datatype source_kind = Raster | Vector | Drawing

definition spec_dispatch :: "source_kind \<Rightarrow> string \<Rightarrow> bool" where
  "spec_dispatch k t = (case k of
      Raster \<Rightarrow> t \<in> {''png'', ''jpg'', ''webp''}
    | Vector \<Rightarrow> t \<in> {''png'', ''jpg'', ''pdf''}
    | Drawing \<Rightarrow> t = ''pdf'')"

definition succeeds :: "unit py \<Rightarrow> fs \<Rightarrow> bool" where
  "succeeds m s = (fst (m s) = Inr ())"

subsection \<open>The vector rows\<close>

lemma convert_image_svg_png:
  "py_lower (snd (splitext i)) = ''.svg'' \<Longrightarrow> s i = Some (Svg im) \<Longrightarrow>
   convert_image i out ''png'' s = (Inr (), s(out \<mapsto> Img PNG im))"
  by (simp add: convert_image_def svg2png_ok)

lemma convert_image_svg_pdf:
  "py_lower (snd (splitext i)) = ''.svg'' \<Longrightarrow> s i = Some (Svg im) \<Longrightarrow>
   convert_image i out ''pdf'' s = (Inr (), s(out \<mapsto> VecPdf))"
  by (simp add: convert_image_def svg2pdf_def fs_read_def fs_write_def py_bind_def)

text \<open>(C22) On an SVG input, \<open>convert_image\<close> returns normally exactly for the targets
  the specification's table lists for vector sources (png, jpg, pdf), and raises for every
  other target.\<close>

theorem convert_image_vector_refines:
  assumes "py_lower (snd (splitext i)) = ''.svg''" and "s i = Some (Svg im)"
  shows "succeeds (convert_image i out t) s \<longleftrightarrow> spec_dispatch Vector t"
proof (cases "t \<in> {''png'', ''pdf'', ''jpg''}")
  case True
  then consider "t = ''png''" | "t = ''pdf''" | "t = ''jpg''" by blast
  then show ?thesis
  proof cases
    case 1
    with assms show ?thesis by (simp add: succeeds_def spec_dispatch_def convert_image_svg_png)
  next
    case 2
    with assms show ?thesis by (simp add: succeeds_def spec_dispatch_def convert_image_svg_pdf)
  next
    case 3
    with assms show ?thesis by (simp add: succeeds_def spec_dispatch_def convert_image_svg_jpg Let_def)
  qed
next
  case False
  with assms show ?thesis
    by (auto simp: succeeds_def spec_dispatch_def convert_image_def py_raise_def)
qed

subsection \<open>The raster rows\<close>

lemma convert_image_raster:
  assumes "py_lower (snd (splitext i)) \<noteq> ''.svg''" and "s i = Some (Img f im)" and "f \<noteq> PDF"
  shows "convert_image i out t s =
    (if t = ''jpg'' then pil_save (convert_rgb im) out ''JPEG'' s else pil_save im out (py_upper t) s)"
  using assms
  by (simp add: convert_image_def pil_open_def fs_read_def decode_blob_def py_bind_def py_return_def)

lemma pil_format_raster_targets:
  "t \<in> {''png'', ''webp'', ''pdf'', ''gif''} \<Longrightarrow> \<exists>g. pil_format (py_upper t) = Some g"
  by (auto simp: pil_format_def pil_registry_def str_simps)

text \<open>(C23) On a decodable RGB raster input, \<open>convert_image\<close> returns normally and
  writes the output image for every target the specification's table lists for raster
  sources (png, jpg, webp), and also for \<open>pdf\<close> and \<open>gif\<close>, pairs the table
  refuses for raster sources: the code has no check that would raise the specification's
  unsupported-conversion error for them.\<close>

theorem convert_image_raster_dispatch:
  assumes "py_lower (snd (splitext i)) \<noteq> ''.svg''" and "s i = Some (Img f im)" and "f \<noteq> PDF"
    and "img_mode im = Mode_RGB"
  shows "(spec_dispatch Raster t \<or> t \<in> {''pdf'', ''gif''} \<longrightarrow>
           (\<exists>g. convert_image i out t s
                 = (Inr (), s(out \<mapsto> Img g (if t = ''jpg'' then convert_rgb im else im)))))
     \<and> \<not> spec_dispatch Raster ''pdf'' \<and> \<not> spec_dispatch Raster ''gif''"
proof (intro conjI impI)
  assume t: "spec_dispatch Raster t \<or> t \<in> {''pdf'', ''gif''}"
  show "\<exists>g. convert_image i out t s = (Inr (), s(out \<mapsto> Img g (if t = ''jpg'' then convert_rgb im else im)))"
  proof (cases "t = ''jpg''")
    case True
    have "pil_format ''JPEG'' = Some JPEG" by (simp add: pil_format_def pil_registry_def)
    with True assms show ?thesis by (auto simp: convert_image_raster pil_save_rgb_ok)
  next
    case False
    with t have "t \<in> {''png'', ''webp'', ''pdf'', ''gif''}" by (auto simp: spec_dispatch_def)
    then obtain g where "pil_format (py_upper t) = Some g" using pil_format_raster_targets by blast
    with False assms show ?thesis by (auto simp: convert_image_raster pil_save_rgb_ok)
  qed
qed (simp_all add: spec_dispatch_def)

end
