(* ===== verification/QtApp.thy ===== *)
theory QtApp
  imports Classifier Libs
begin

text \<open>
  The desktop front end \<open>src/app_qt5.py\<close>. Its helpers \<open>convert_image\<close> and
  \<open>convert_svg\<close> are copies of the web application's (here \<open>convert_image_qt\<close>,
  \<open>convert_svg_qt\<close>). \<open>ImageConverter.select_and_convert\<close> converts every file of a
  selection, counting successes and collecting the failed paths, and shows one message box;
  \<open>ImageConverter.select_and_merge_gif\<close> makes a GIF next to the first selected file.
  The file dialogs, the combo boxes and \<open>uuid4\<close> are inputs of the model (the selected
  paths, the chosen format and duration text, the hex string); a message box is the pair of
  its kind and its content.
\<close>

definition convert_image_qt :: "path \<Rightarrow> path \<Rightarrow> string \<Rightarrow> unit py" where
  "convert_image_qt input_path output_path format =
     py_bind (pil_open input_path) (\<lambda>img.
       let img' = (if format = ''jpg'' then convert_rgb img else img) in
       pil_save img' output_path (py_upper format))"

definition convert_svg_qt :: "path \<Rightarrow> path \<Rightarrow> string \<Rightarrow> unit py" where
  "convert_svg_qt input_path output_path format =
     (let temp_png_path = rsplit1 CHR ''.'' output_path ! 0 @ ''.png'' in
      py_seq (svg2png input_path temp_png_path)
        (py_seq (py_bind (pil_open temp_png_path) (\<lambda>img.
                   let img' = (if format = ''jpg'' then convert_rgb img else img) in
                   pil_save img' output_path (py_upper format)))
           (os_remove temp_png_path)))"

datatype box = Information | Warning | Critical

datatype qt_text =
    ConvertSummary nat "path list"
  | NeedTwoImages
  | GifDone path
  | GifError exn

type_synonym message = "box \<times> qt_text"

text \<open>One file of the selection: the output goes next to the input, named after its base
  name and the chosen format; an exception of the converter counts the file as failed.\<close>

definition qt_output_path :: "path \<Rightarrow> string \<Rightarrow> path" where
  "qt_output_path file_path convert_type =
     path_join (dirname file_path) (fst (splitext (basename file_path)) @ ''.'' @ convert_type)"

definition convert_one_qt :: "string \<Rightarrow> path \<Rightarrow> unit py" where
  "convert_one_qt convert_type file_path =
     (if ext_of_qt file_path = ''svg''
      then convert_svg_qt file_path (qt_output_path file_path convert_type) convert_type
      else convert_image_qt file_path (qt_output_path file_path convert_type) convert_type)"

fun convert_loop :: "string \<Rightarrow> path list \<Rightarrow> nat \<Rightarrow> path list \<Rightarrow> fs \<Rightarrow> nat \<times> path list \<times> fs" where
  "convert_loop convert_type [] success_count failed_files s = (success_count, failed_files, s)"
| "convert_loop convert_type (file_path # file_paths) success_count failed_files s =
     (if \<not> allowed_file_qt file_path
      then convert_loop convert_type file_paths success_count (failed_files @ [file_path]) s
      else (case convert_one_qt convert_type file_path s of
              (Inl e, s') \<Rightarrow> convert_loop convert_type file_paths success_count (failed_files @ [file_path]) s'
            | (Inr _, s') \<Rightarrow> convert_loop convert_type file_paths (Suc success_count) failed_files s'))"

definition select_and_convert :: "string \<Rightarrow> path list \<Rightarrow> fs \<Rightarrow> message option \<times> fs" where
  "select_and_convert convert_type file_paths s =
     (if file_paths = [] then (None, s)
      else (case convert_loop convert_type file_paths 0 [] s of
        (success_count, failed_files, s') \<Rightarrow>
          (Some (if failed_files \<noteq> [] then Warning else Information,
                 ConvertSummary success_count failed_files), s')))"

text \<open>\<open>[Image.open(fp).convert("RGBA") for fp in file_paths]\<close>: the first file that does
  not open raises.\<close>

fun open_all_rgba :: "path list \<Rightarrow> image list py" where
  "open_all_rgba [] = py_return []"
| "open_all_rgba (fp # fps) =
     py_bind (pil_open fp) (\<lambda>img. py_bind (open_all_rgba fps) (\<lambda>imgs. py_return (convert_rgba img # imgs)))"

definition qt_gif_path :: "path list \<Rightarrow> string \<Rightarrow> path" where
  "qt_gif_path file_paths hex = path_join (dirname (hd file_paths)) (''combo_'' @ hex @ ''.gif'')"

definition select_and_merge_gif :: "string \<Rightarrow> string \<Rightarrow> path list \<Rightarrow> fs \<Rightarrow> message \<times> fs" where
  "select_and_merge_gif duration_text hex file_paths s =
     (if file_paths = [] \<or> length file_paths < 2 then ((Critical, NeedTwoImages), s)
      else (case py_bind (open_all_rgba file_paths) (\<lambda>images.
                   case py_float duration_text of
                     None \<Rightarrow> py_raise (ValueError duration_text)
                   | Some duration \<Rightarrow>
                       py_seq (mimsave (qt_gif_path file_paths hex) images duration)
                         (py_return (qt_gif_path file_paths hex))) s of
              (Inr output_path, s') \<Rightarrow> ((Information, GifDone output_path), s')
            | (Inl e, s') \<Rightarrow> ((Critical, GifError e), s')))"

subsection \<open>Properties of the desktop loops\<close>

lemma convert_loop_counts:
  "convert_loop ct fps n fl s = (n', fl', s') \<Longrightarrow> n' + length fl' = n + length fl + length fps"
proof (induction fps arbitrary: n fl s)
  case Nil
  then show ?case by simp
next
  case (Cons fp fps)
  show ?case
  proof (cases "allowed_file_qt fp")
    case False
    with Cons show ?thesis by simp
  next
    case True
    obtain r t where step: "convert_one_qt ct fp s = (r, t)" by (metis prod.exhaust)
    show ?thesis
    proof (cases r)
      case (Inl e)
      with True step Cons.prems have "convert_loop ct fps n (fl @ [fp]) t = (n', fl', s')" by simp
      from Cons.IH[OF this] show ?thesis by simp
    next
      case (Inr u)
      with True step Cons.prems have "convert_loop ct fps (Suc n) fl t = (n', fl', s')" by simp
      from Cons.IH[OF this] show ?thesis by simp
    qed
  qed
qed

lemma convert_image_qt_jpg_fails: "\<exists>e. convert_image_qt i out ''jpg'' s = (Inl e, s)"
  by (simp add: convert_image_qt_def pil_open_def pil_save_def py_simps split: option.splits)

lemma convert_svg_qt_jpg_fails: "\<exists>e s'. convert_svg_qt i out ''jpg'' s = (Inl e, s')"
  by (simp add: convert_svg_qt_def Let_def py_simps decode_blob_def
      split: option.splits blob.splits)

lemma convert_one_qt_jpg_fails: "\<exists>e s'. convert_one_qt ''jpg'' fp s = (Inl e, s')"
  using convert_image_qt_jpg_fails[of fp "qt_output_path fp ''jpg''" s]
    convert_svg_qt_jpg_fails[of fp "qt_output_path fp ''jpg''" s]
  by (auto simp: convert_one_qt_def)

lemma convert_loop_jpg:
  "\<exists>s'. convert_loop ''jpg'' fps n fl s = (n, fl @ fps, s')"
proof (induction fps arbitrary: fl s)
  case Nil
  then show ?case by simp
next
  case (Cons fp fps)
  obtain e t where "convert_one_qt ''jpg'' fp s = (Inl e, t)"
    using convert_one_qt_jpg_fails by blast
  with Cons.IH[of "fl @ [fp]"] show ?case by simp
qed

text \<open>(C17) The report of a batch conversion accounts for every selected file: the number of
  successes plus the number of failed paths is the number of files selected, and the box is
  a warning exactly when some file failed.\<close>

theorem select_and_convert_counts:
  assumes "select_and_convert ct fps s = (Some (b, ConvertSummary n fl), s')"
  shows "n + length fl = length fps \<and> (b = Warning \<longleftrightarrow> fl \<noteq> [])"
proof -
  obtain n' fl' t where loop: "convert_loop ct fps 0 [] s = (n', fl', t)"
    by (metis prod.exhaust)
  with assms have "n = n'" "fl = fl'" "b = (if fl' \<noteq> [] then Warning else Information)"
    by (auto simp: select_and_convert_def split: if_splits)
  with convert_loop_counts[OF loop] show ?thesis by simp
qed

text \<open>(C18) In the desktop application a batch conversion to \<open>jpg\<close> converts nothing:
  every selected file is reported failed, in selection order, and the box is a warning
  (the helper asks Pillow for the format \<open>JPG\<close>).\<close>

theorem select_and_convert_jpg_all_fail:
  assumes "fps \<noteq> []"
  shows "fst (select_and_convert ''jpg'' fps s) = Some (Warning, ConvertSummary 0 fps)"
proof -
  obtain t where "convert_loop ''jpg'' fps 0 [] s = (0, fps, t)"
    using convert_loop_jpg[of fps 0 "[]" s] by auto
  with assms show ?thesis by (simp add: select_and_convert_def)
qed

lemma open_all_rgba_ok:
  "map s fps = map (\<lambda>im. Some (Img PNG im)) ims \<Longrightarrow> open_all_rgba fps s = (Inr (map convert_rgba ims), s)"
proof (induction fps arbitrary: ims)
  case Nil
  then show ?case by (simp add: py_return_def)
next
  case (Cons fp fps)
  then obtain im ims' where "ims = im # ims'" "s fp = Some (Img PNG im)" "map s fps = map (\<lambda>im. Some (Img PNG im)) ims'"
    by (cases ims) auto
  with Cons.IH show ?case
    by (simp add: pil_open_def fs_read_def decode_blob_def py_bind_def py_return_def)
qed

text \<open>(C20) With at least two selected PNG files and a duration text that parses, the
  desktop GIF maker writes one GIF next to the first file whose frames are the images
  converted to RGBA in selection order, all with that duration, and shows its path.\<close>

theorem select_and_merge_gif_ok:
  assumes "2 \<le> length fps" and "map s fps = map (\<lambda>im. Some (Img PNG im)) ims"
    and "py_float d = Some dur"
  shows "select_and_merge_gif d hex fps s =
    ((Information, GifDone (qt_gif_path fps hex)), s(qt_gif_path fps hex \<mapsto> Anim (map convert_rgba ims) dur))"
  using assms open_all_rgba_ok[OF assms(2)]
  by (auto simp: select_and_merge_gif_def py_simps)

lemma ext_of_qt_png: "ext_of_qt (b @ ''.png'') = ''png''"
  using rsplit1_last[of "CHR ''.''" "''png''" b] by (simp add: ext_of_qt_def str_simps)

lemma qt_output_path_suffix: "\<exists>b. qt_output_path fp ct = b @ ''.'' @ ct"
  unfolding qt_output_path_def by (rule path_join_suffix)

text \<open>One SVG file converted to \<open>png\<close>: the temporary PNG is the output file, so the
  conversion writes it, opens it, writes it again and removes it.\<close>

lemma convert_one_qt_svg_png:
  assumes "ext_of_qt fp = ''svg''" and "s fp = Some (Svg im)" and "img_mode im \<noteq> Mode_CMYK"
  shows "convert_one_qt ''png'' fp s = (Inr (), s(qt_output_path fp ''png'' := None))"
proof -
  obtain b where out: "qt_output_path fp ''png'' = b @ ''.png''"
    using qt_output_path_suffix[of fp "''png''"] by auto
  have tmp: "rsplit1 CHR ''.'' (b @ ''.png'') ! 0 @ ''.png'' = b @ ''.png''"
    using rsplit1_last[of "CHR ''.''" "''png''" b] by simp
  have "convert_svg_qt fp (b @ ''.png'') ''png'' s = (Inr (), s(b @ ''.png'' := None))"
    using assms(2,3) tmp
    by (simp add: convert_svg_qt_def Let_def py_simps str_simps)
  with assms(1) out show ?thesis by (simp add: convert_one_qt_def)
qed

lemma convert_loop_svg_png:
  "\<forall>fp \<in> set fps. ext_of_qt fp = ''svg'' \<and> allowed_file_qt fp
       \<and> (\<exists>im. s fp = Some (Svg im) \<and> img_mode im \<noteq> Mode_CMYK) \<Longrightarrow>
   convert_loop ''png'' fps n fl s =
     (n + length fps, fl, fold (\<lambda>fp t. t(qt_output_path fp ''png'' := None)) fps s)"
proof (induction fps arbitrary: n s)
  case Nil
  then show ?case by simp
next
  case (Cons fp fps)
  then obtain im where fp: "ext_of_qt fp = ''svg''" "allowed_file_qt fp"
      "s fp = Some (Svg im)" "img_mode im \<noteq> Mode_CMYK" by auto
  obtain b where out: "qt_output_path fp ''png'' = b @ ''.png''"
    using qt_output_path_suffix[of fp "''png''"] by auto
  have "\<forall>q \<in> set fps. q \<noteq> qt_output_path fp ''png''"
    using Cons.prems out ext_of_qt_png[of b] by auto
  then have "\<forall>q \<in> set fps. ext_of_qt q = ''svg'' \<and> allowed_file_qt q
      \<and> (\<exists>im. (s(qt_output_path fp ''png'' := None)) q = Some (Svg im) \<and> img_mode im \<noteq> Mode_CMYK)"
    using Cons.prems by auto
  note IH = Cons.IH[OF this, of "Suc n"]
  have "convert_loop ''png'' (fp # fps) n fl s
      = convert_loop ''png'' fps (Suc n) fl (s(qt_output_path fp ''png'' := None))"
    using fp(2) convert_one_qt_svg_png[of fp s im, OF fp(1,3,4)] by simp
  also have "\<dots> = (Suc n + length fps, fl,
      fold (\<lambda>fp t. t(qt_output_path fp ''png'' := None)) fps (s(qt_output_path fp ''png'' := None)))"
    by (rule IH)
  finally show ?case by (simp only: fold.simps comp_apply length_Cons add_Suc_right add_Suc)
qed

text \<open>(C21) The desktop batch conversion counts every SVG to PNG conversion as a success
  although no PNG is left: for every selection of SVG files, the report says all of them
  were converted and none failed, while the output file of each is gone, because the
  helper's temporary PNG is the output file and is removed at the end.\<close>

theorem select_and_convert_svg_png_counted_lost:
  assumes "fps \<noteq> []"
    and "\<forall>fp \<in> set fps. ext_of_qt fp = ''svg'' \<and> allowed_file_qt fp
           \<and> (\<exists>im. s fp = Some (Svg im) \<and> img_mode im \<noteq> Mode_CMYK)"
  shows "fst (select_and_convert ''png'' fps s) = Some (Information, ConvertSummary (length fps) [])
       \<and> (\<forall>fp \<in> set fps. snd (select_and_convert ''png'' fps s) (qt_output_path fp ''png'') = None)"
  using assms convert_loop_svg_png[OF assms(2), of 0 "[]"]
    fold_clear_None[where g = "\<lambda>fp. qt_output_path fp ''png''" and xs = fps and t = s]
  by (simp add: select_and_convert_def)

theorem select_and_convert_svg_png_counted_lost_witness:
  "fst (select_and_convert ''png'' [''d/a.svg''] [''d/a.svg'' \<mapsto> Svg \<lparr>img_mode = Mode_RGBA, img_size = (1, 1), img_pixels = [(0, 0, 0, 0)]\<rparr>])
      = Some (Information, ConvertSummary 1 [])
   \<and> snd (select_and_convert ''png'' [''d/a.svg''] [''d/a.svg'' \<mapsto> Svg \<lparr>img_mode = Mode_RGBA, img_size = (1, 1), img_pixels = [(0, 0, 0, 0)]\<rparr>]) ''d/a.png'' = None"
  using select_and_convert_svg_png_counted_lost[of "[''d/a.svg'']" "[''d/a.svg'' \<mapsto> Svg \<lparr>img_mode = Mode_RGBA, img_size = (1, 1), img_pixels = [(0, 0, 0, 0)]\<rparr>]"]
  by (simp add: allowed_file_qt_def ALLOWED_EXTENSIONS_qt_def ext_of_qt_def qt_output_path_def str_simps)

end
