(* ===== verification/QtUI.thy ===== *)
theory QtUI
  imports QtApp
begin

text \<open>
  The desktop window of \<open>src/app_qt5.py\<close> as a state machine. \<open>ImageConverter.__init__\<close>
  builds two combo boxes (target format and GIF frame duration) and two buttons whose
  \<open>clicked\<close> signals run \<open>select_and_convert\<close> and \<open>select_and_merge_gif\<close>;
  \<open>app.exec_()\<close> then delivers user events until the window closes. A combo box is its
  list of items and its current index (\<open>-1\<close> for none, as in Qt): \<open>addItems\<close> appends
  and makes the first item current when there was none, \<open>currentText\<close> is the current
  item or the empty string. The user picks a row of the popup, which only offers the
  existing rows. The file dialogs and \<open>uuid4\<close> are the events' arguments. The window
  state records the file system and the message boxes shown so far.
\<close>

record combo =
  combo_items :: "string list"
  combo_current :: int

definition empty_combo :: combo where
  "empty_combo = \<lparr>combo_items = [], combo_current = -1\<rparr>"

definition add_items :: "string list \<Rightarrow> combo \<Rightarrow> combo" where
  "add_items xs c = \<lparr>combo_items = combo_items c @ xs,
     combo_current = (if combo_current c = -1 \<and> xs \<noteq> [] then 0 else combo_current c)\<rparr>"

definition current_text :: "combo \<Rightarrow> string" where
  "current_text c = (if 0 \<le> combo_current c \<and> nat (combo_current c) < length (combo_items c)
     then combo_items c ! nat (combo_current c) else [])"

definition activate_row :: "nat \<Rightarrow> combo \<Rightarrow> combo" where
  "activate_row i c = (if i < length (combo_items c) then c\<lparr>combo_current := int i\<rparr> else c)"

record desktop =
  format_combo :: combo
  duration_combo :: combo
  desk_fs :: fs
  shown :: "message list"

definition image_converter_init :: "fs \<Rightarrow> desktop" where
  "image_converter_init s =
     \<lparr>format_combo = add_items [''png'', ''jpg'', ''webp''] empty_combo,
      duration_combo = add_items [''0.1'', ''0.2'', ''0.5'', ''1.0''] empty_combo,
      desk_fs = s, shown = []\<rparr>"

text \<open>The two slots: each reads its combo box when it runs, and a message box it shows is
  appended to \<open>shown\<close> (\<open>select_and_convert\<close> shows none for an empty selection).\<close>

definition on_convert :: "path list \<Rightarrow> desktop \<Rightarrow> desktop" where
  "on_convert file_paths d =
     (case select_and_convert (current_text (format_combo d)) file_paths (desk_fs d) of
        (m, s') \<Rightarrow> d\<lparr>desk_fs := s', shown := shown d @ (case m of None \<Rightarrow> [] | Some x \<Rightarrow> [x])\<rparr>)"

definition on_merge_gif :: "string \<Rightarrow> path list \<Rightarrow> desktop \<Rightarrow> desktop" where
  "on_merge_gif hex file_paths d =
     (case select_and_merge_gif (current_text (duration_combo d)) hex file_paths (desk_fs d) of
        (m, s') \<Rightarrow> d\<lparr>desk_fs := s', shown := shown d @ [m]\<rparr>)"

datatype ui_event =
    ChooseFormat nat
  | ChooseDuration nat
  | ClickConvert "path list"
  | ClickGif string "path list"

fun ui_step :: "ui_event \<Rightarrow> desktop \<Rightarrow> desktop" where
  "ui_step (ChooseFormat i) d = d\<lparr>format_combo := activate_row i (format_combo d)\<rparr>"
| "ui_step (ChooseDuration i) d = d\<lparr>duration_combo := activate_row i (duration_combo d)\<rparr>"
| "ui_step (ClickConvert fps) d = on_convert fps d"
| "ui_step (ClickGif hex fps) d = on_merge_gif hex fps d"

text \<open>The states the event loop reaches from a window opened on the file system \<open>s\<close>.\<close>

inductive reachable :: "fs \<Rightarrow> desktop \<Rightarrow> bool" for s :: fs where
  reach_init: "reachable s (image_converter_init s)"
| reach_step: "reachable s d \<Longrightarrow> reachable s (ui_step e d)"

definition wf_combo :: "string list \<Rightarrow> combo \<Rightarrow> bool" where
  "wf_combo xs c = (combo_items c = xs \<and> 0 \<le> combo_current c \<and> nat (combo_current c) < length xs)"

definition wf_desktop :: "desktop \<Rightarrow> bool" where
  "wf_desktop d = (wf_combo [''png'', ''jpg'', ''webp''] (format_combo d)
     \<and> wf_combo [''0.1'', ''0.2'', ''0.5'', ''1.0''] (duration_combo d))"

subsection \<open>The window's invariant\<close>

lemma activate_row_wf: "wf_combo xs c \<Longrightarrow> wf_combo xs (activate_row i c)"
  by (simp add: wf_combo_def activate_row_def)

lemma current_text_wf: "wf_combo xs c \<Longrightarrow> current_text c \<in> set xs"
  by (auto simp: wf_combo_def current_text_def)

lemma on_convert_combos [simp]:
  "format_combo (on_convert fps d) = format_combo d \<and> duration_combo (on_convert fps d) = duration_combo d"
  by (simp add: on_convert_def split: prod.split)

lemma on_merge_gif_combos [simp]:
  "format_combo (on_merge_gif hex fps d) = format_combo d \<and> duration_combo (on_merge_gif hex fps d) = duration_combo d"
  by (simp add: on_merge_gif_def split: prod.split)

lemma ui_step_wf: "wf_desktop d \<Longrightarrow> wf_desktop (ui_step e d)"
  by (cases e) (simp_all add: wf_desktop_def activate_row_wf)

lemma init_wf: "wf_desktop (image_converter_init s)"
  by (simp add: wf_desktop_def wf_combo_def image_converter_init_def add_items_def empty_combo_def)

lemma reachable_wf: "reachable s d \<Longrightarrow> wf_desktop d"
  by (induction rule: reachable.induct) (simp_all add: init_wf ui_step_wf)

lemma duration_items_values:
  "py_float ''0.1'' = Some (Finite (1 / 10)) \<and> py_float ''0.2'' = Some (Finite (1 / 5))
   \<and> py_float ''0.5'' = Some (Finite (1 / 2)) \<and> py_float ''1.0'' = Some (Finite 1)"
  by (simp add: str_simps)

lemma duration_items_float:
  "x \<in> set [''0.1'', ''0.2'', ''0.5'', ''1.0''] \<Longrightarrow>
   \<exists>v. py_float x = Some (Finite v) \<and> 1 / 10 \<le> v \<and> v \<le> 1"
  using duration_items_values by auto

text \<open>(C30) In every state the desktop window reaches, the target format the convert button
  uses is one of \<open>png\<close>, \<open>jpg\<close> and \<open>webp\<close>, and the duration text the GIF button
  uses is one of the four items of its combo box: the window never reads an empty
  \<open>currentText()\<close>.\<close>

theorem reachable_current_items:
  assumes "reachable s d"
  shows "current_text (format_combo d) \<in> {''png'', ''jpg'', ''webp''}
       \<and> current_text (duration_combo d) \<in> {''0.1'', ''0.2'', ''0.5'', ''1.0''}"
  using reachable_wf[OF assms] current_text_wf[of "[''png'', ''jpg'', ''webp'']" "format_combo d"]
    current_text_wf[of "[''0.1'', ''0.2'', ''0.5'', ''1.0'']" "duration_combo d"]
  by (simp add: wf_desktop_def)

text \<open>(C31) In every state the desktop window reaches, the GIF duration parses with
  \<open>float()\<close> to a number of seconds between 0.1 and 1, so every GIF the window writes
  has a positive frame duration of at most one second.\<close>

theorem reachable_duration_bounds:
  assumes "reachable s d"
  shows "\<exists>v. py_float (current_text (duration_combo d)) = Some (Finite v) \<and> 1 / 10 \<le> v \<and> v \<le> 1"
proof -
  have "current_text (duration_combo d) \<in> set [''0.1'', ''0.2'', ''0.5'', ''1.0'']"
    using reachable_wf[OF assms] current_text_wf[of "[''0.1'', ''0.2'', ''0.5'', ''1.0'']" "duration_combo d"]
    by (simp add: wf_desktop_def)
  then show ?thesis by (rule duration_items_float)
qed

lemma choose_format_current:
  assumes "wf_desktop d" and "i < 3"
  shows "current_text (format_combo (ui_step (ChooseFormat i) d)) = [''png'', ''jpg'', ''webp''] ! i"
  using assms by (simp add: wf_desktop_def wf_combo_def activate_row_def current_text_def)

text \<open>(C32) From every state the desktop window reaches, the user can make any of the three
  target formats current with one event, and the state after it is again reachable: the
  format combo box never gets stuck.\<close>

theorem reachable_format_choosable:
  assumes "reachable s d" and "x \<in> {''png'', ''jpg'', ''webp''}"
  shows "\<exists>e. reachable s (ui_step e d) \<and> current_text (format_combo (ui_step e d)) = x"
proof -
  obtain i where i: "i < 3" "[''png'', ''jpg'', ''webp''] ! i = x"
    using assms(2) that[of 0] that[of 1] that[of 2] by auto
  have "current_text (format_combo (ui_step (ChooseFormat i) d)) = x"
    using choose_format_current[OF reachable_wf[OF assms(1)] i(1)] i(2) by simp
  with reach_step[OF assms(1)] show ?thesis by blast
qed

subsection \<open>Witnesses\<close>

lemma reachable_demo: "reachable Map.empty (ui_step (ChooseDuration 3) (image_converter_init Map.empty))"
  by (intro reach_step reach_init)

theorem reachable_current_items_witness:
  "current_text (format_combo (ui_step (ChooseDuration 3) (image_converter_init Map.empty))) \<in> {''png'', ''jpg'', ''webp''}
   \<and> current_text (duration_combo (ui_step (ChooseDuration 3) (image_converter_init Map.empty)))
       \<in> {''0.1'', ''0.2'', ''0.5'', ''1.0''}"
  by (rule reachable_current_items[OF reachable_demo])

theorem reachable_duration_bounds_witness:
  "\<exists>v. py_float (current_text (duration_combo (ui_step (ChooseDuration 3) (image_converter_init Map.empty))))
         = Some (Finite v) \<and> 1 / 10 \<le> v \<and> v \<le> 1"
  by (rule reachable_duration_bounds[OF reachable_demo])

theorem reachable_format_choosable_witness:
  "\<exists>e. reachable Map.empty (ui_step e (ui_step (ChooseDuration 3) (image_converter_init Map.empty)))
     \<and> current_text (format_combo (ui_step e (ui_step (ChooseDuration 3) (image_converter_init Map.empty)))) = ''webp''"
  by (rule reachable_format_choosable[OF reachable_demo]) simp

end

