(* ===== verification/Download.thy ===== *)
theory Download
  imports Routes
begin

text \<open>
  The route \<open>/download/<format>/<filename>\<close> of \<open>src/app.py\<close> (\<open>download_file\<close>). It
  joins \<open>format\<close> to \<open>OUTPUT_FOLDER\<close> unchecked and hands the folder and the file name to
  Flask's \<open>send_from_directory\<close>, which guards the file name only, with Werkzeug's
  \<open>safe_join\<close>: the name is normalised (\<open>posixpath.normpath\<close>) and refused when it is
  absolute or climbs with \<open>..\<close>; a refused name or a missing file is a 404. The operating
  system resolves the joined path, \<open>..\<close> included, relative to the application's
  directory, where \<open>outputs\<close> exists from start-up on; the model looks the normalised path
  up in the file system. Flask's URL converter passes one non-empty path segment without
  \<open>/\<close> for each of \<open>format\<close> and \<open>filename\<close>.
\<close>

datatype sent = Sent blob | NotFound

definition safe_join :: "path \<Rightarrow> string \<Rightarrow> path option" where
  "safe_join directory pathname =
     (let directory' = (if directory = [] then ''.'' else directory);
          pathname' = (if pathname \<noteq> [] then normpath pathname else pathname) in
      if take 1 pathname' = ''/'' \<or> pathname' = ''..'' \<or> take 3 pathname' = ''../'' then None
      else Some (path_join directory' pathname'))"

definition download_file :: "string \<Rightarrow> string \<Rightarrow> fs \<Rightarrow> nat \<times> sent" where
  "download_file format file_name s =
     (let folder = path_join OUTPUT_FOLDER format in
      case safe_join folder file_name of
        None \<Rightarrow> (404, NotFound)
      | Some p \<Rightarrow> (case s (normpath p) of None \<Rightarrow> (404, NotFound) | Some b \<Rightarrow> (200, Sent b)))"

abbreviation raster_px :: image where
  "raster_px \<equiv> \<lparr>img_mode = Mode_RGB, img_size = (1, 1), img_pixels = [(0, 128, 255, 255)]\<rparr>"

definition plain_segment :: "string \<Rightarrow> bool" where
  "plain_segment x = (x \<noteq> [] \<and> x \<noteq> ''.'' \<and> x \<noteq> ''..'' \<and> CHR ''/'' \<notin> set x)"

subsection \<open>What the route serves\<close>

lemma normpath_segment: "plain_segment x \<Longrightarrow> normpath x = x"
  using normpath_plain[of "[x]"] by (simp add: plain_segment_def)

lemma safe_join_segment:
  assumes "plain_segment fmt" and "plain_segment fn"
  shows "safe_join (path_join OUTPUT_FOLDER fmt) fn = Some (''outputs/'' @ fmt @ ''/'' @ fn)"
proof -
  have nt: "CHR ''/'' \<notin> set (take n fn)" for n
    using assms(2) by (auto simp: plain_segment_def dest: in_set_takeD)
  have "take 1 fn \<noteq> ''/''" and "take 3 fn \<noteq> ''../''"
    using nt[of 1] nt[of 3] by auto
  moreover have "fmt \<noteq> []" using assms(1) by (simp add: plain_segment_def)
  moreover have "path_join OUTPUT_FOLDER fmt = ''outputs/'' @ fmt"
    using assms(1) path_join_rel[of OUTPUT_FOLDER fmt] by (simp add: OUTPUT_FOLDER_def plain_segment_def)
  moreover have "last fmt \<noteq> CHR ''/''"
    using assms(1) last_in_set[of fmt] by (metis plain_segment_def)
  then have "path_join (''outputs/'' @ fmt) fn = ''outputs/'' @ fmt @ ''/'' @ fn"
    using assms path_join_rel[of "''outputs/'' @ fmt" fn] by (simp add: plain_segment_def)
  ultimately show ?thesis
    using assms normpath_segment[OF assms(2)] by (simp add: safe_join_def Let_def plain_segment_def)
qed

lemma normpath_output_path:
  assumes "plain_segment fmt" and "plain_segment fn"
  shows "normpath (''outputs/'' @ fmt @ ''/'' @ fn) = ''outputs/'' @ fmt @ ''/'' @ fn"
  using normpath_plain[of "[''outputs'', fmt, fn]"] assms by (simp add: plain_segment_def)

lemma download_file_plain:
  assumes "plain_segment fmt" and "plain_segment fn"
  shows "download_file fmt fn s =
    (case s (''outputs/'' @ fmt @ ''/'' @ fn) of None \<Rightarrow> (404, NotFound) | Some b \<Rightarrow> (200, Sent b))"
  using safe_join_segment[OF assms] normpath_output_path[OF assms] by (simp add: download_file_def)

text \<open>(C33) For plain segments the download route serves exactly the file
  \<open>outputs/format/filename\<close>, or answers 404 when there is none. The \<open>format\<close> segment
  is not checked, though: \<open>/download/../app.py\<close> serves the application's own source,
  a file outside \<open>outputs\<close>.\<close>

theorem download_file_scope:
  "(plain_segment fmt \<and> plain_segment fn \<longrightarrow>
      download_file fmt fn s =
        (case s (''outputs/'' @ fmt @ ''/'' @ fn) of None \<Rightarrow> (404, NotFound) | Some b \<Rightarrow> (200, Sent b)))
   \<and> download_file ''..'' ''app.py'' [''app.py'' \<mapsto> Text ''source''] = (200, Sent (Text ''source''))"
proof (intro conjI impI)
  assume "plain_segment fmt \<and> plain_segment fn"
  then show "download_file fmt fn s =
      (case s (''outputs/'' @ fmt @ ''/'' @ fn) of None \<Rightarrow> (404, NotFound) | Some b \<Rightarrow> (200, Sent b))"
    using download_file_plain[of fmt fn s] by simp
next
  show "download_file ''..'' ''app.py'' [''app.py'' \<mapsto> Text ''source''] = (200, Sent (Text ''source''))"
    by (simp add: download_file_def safe_join_def OUTPUT_FOLDER_def str_simps)
qed

text \<open>(C19) A raster upload converted to \<open>png\<close> or \<open>webp\<close> through \<open>/convert\<close>
  gets the answer 200 with a download link, and following that link through
  \<open>download_file\<close> serves the converted image: the two routes agree on where outputs
  live (for a secured name without a slash, as \<open>secure_filename\<close> returns).\<close>

theorem convert_download_roundtrip:
  assumes "mdict_get (req_files req) ''file'' = Some f"
    and "mdict_get (req_form req) ''convert_type'' = Some ct" and "ct \<in> {''png'', ''webp''}"
    and "allowed_file (filename f)" and "ext_of (filename f) \<noteq> ''svg''"
    and "decode_blob (content f) = Some im" and "img_mode im \<noteq> Mode_CMYK"
    and "CHR ''/'' \<notin> set (secure (filename f))"
  shows "\<exists>ofn g. fst (convert secure req s) = Inr (200, Success ConvertOk ofn (''/download/'' @ ct @ ''/'' @ ofn))
     \<and> download_file ct ofn (snd (convert secure req s)) = (200, Sent (Img g im))"
proof -
  define base where "base = fst (splitext (secure (filename f)))"
  have nb: "CHR ''/'' \<notin> set base" using assms(8) set_splitext_fst unfolding base_def by blast
  obtain g where g: "pil_format (py_upper ct) = Some g" "pil_writable g (img_mode im)"
    using assms(3,7) by (auto simp: str_simps pil_format_def pil_registry_def pil_writable_def)
  have out: "path_join (path_join OUTPUT_FOLDER ct) (base @ ''.'' @ ct) = ''outputs/'' @ ct @ ''/'' @ base @ ''.'' @ ct"
  proof -
    have "ct \<in> {''png'', ''jpg'', ''webp''}" using assms(3) by auto
    from convert_output_path[OF assms(8) this] show ?thesis by (simp add: base_def)
  qed
  have inp: "path_join UPLOAD_FOLDER (secure (filename f)) = ''uploads/'' @ secure (filename f)"
    using assms(8) by (rule convert_input_path)
  have ct: "plain_segment ct" and ofn: "plain_segment (base @ ''.'' @ ct)"
    using assms(3) nb by (auto simp: plain_segment_def)
  have route: "convert secure req s = (Inr (200, Success ConvertOk (base @ ''.'' @ ct) (''/download/'' @ ct @ ''/'' @ base @ ''.'' @ ct)),
      (s(''uploads/'' @ secure (filename f) \<mapsto> content f, ''outputs/'' @ ct @ ''/'' @ base @ ''.'' @ ct \<mapsto> Img g im))
        (''uploads/'' @ secure (filename f) := None))"
    using assms g allowed_file_nonempty[OF assms(4)] out inp
    by (auto simp: convert_def Let_def base_def convert_image_app_def pil_open_def pil_save_def fs_read_def
        fs_write_def py_seq_def py_bind_def py_return_def py_try_cleanup)
  show ?thesis
    using route download_file_plain[OF ct ofn] by auto
qed

theorem convert_download_roundtrip_witness:
  "\<exists>ofn g. fst (convert id \<lparr>req_files = [(''file'', \<lparr>filename = ''a.png'', content = Img PNG raster_px\<rparr>)],
                               req_form = [(''convert_type'', ''webp'')]\<rparr> Map.empty)
       = Inr (200, Success ConvertOk ofn (''/download/'' @ ''webp'' @ ''/'' @ ofn))
     \<and> download_file ''webp'' ofn (snd (convert id \<lparr>req_files = [(''file'', \<lparr>filename = ''a.png'', content = Img PNG raster_px\<rparr>)],
                               req_form = [(''convert_type'', ''webp'')]\<rparr> Map.empty)) = (200, Sent (Img g raster_px))"
  by (rule convert_download_roundtrip[of _ "\<lparr>filename = ''a.png'', content = Img PNG raster_px\<rparr>"])
    (simp_all add: mdict_get_def allowed_file_def ALLOWED_EXTENSIONS_def ext_of_def decode_blob_def str_simps)

theorem download_file_scope_witness:
  "download_file ''webp'' ''a.webp'' [''outputs/webp/a.webp'' \<mapsto> Opaque] = (200, Sent (Opaque))
   \<and> download_file ''..'' ''app.py'' [''app.py'' \<mapsto> Text ''source''] = (200, Sent (Text ''source''))"
  using download_file_scope[of "''webp''" "''a.webp''" "[''outputs/webp/a.webp'' \<mapsto> Opaque]"]
  by (simp add: plain_segment_def)

end
