(* ===== verification/Index.thy ===== *)
theory Index
  imports Download
begin

text \<open>
  The index page \<open>/\<close> of \<open>src/app.py\<close> (\<open>index\<close>): for every entry of
  \<open>OUTPUT_FOLDER\<close> that is a directory, every entry of that directory, as
  \<open>subdir/file\<close>. \<open>os.listdir\<close> returns the names of the files and directories
  directly inside a directory, in no specified order; in the file-system model a directory
  is a path some stored file lies below, and a name is a non-empty string without
  \<open>/\<close>. The page is a list in listing order, rendered by a template; the model is the set
  of its entries, which is what the order leaves determined. Empty directories created by
  \<open>os.makedirs\<close> contribute no entry to the page, so their absence from the model does
  not change it.
\<close>

definition listdir :: "fs \<Rightarrow> path \<Rightarrow> string set" where
  "listdir s d = {n. n \<noteq> [] \<and> CHR ''/'' \<notin> set n \<and>
     (\<exists>p b. s p = Some b \<and> (p = d @ ''/'' @ n \<or> (\<exists>r. p = d @ ''/'' @ n @ ''/'' @ r)))}"

definition isdir :: "fs \<Rightarrow> path \<Rightarrow> bool" where
  "isdir s d = (\<exists>r b. s (d @ ''/'' @ r) = Some b)"

definition index :: "fs \<Rightarrow> string set" where
  "index s = {subdir @ ''/'' @ file | subdir file.
     subdir \<in> listdir s OUTPUT_FOLDER \<and> isdir s (path_join OUTPUT_FOLDER subdir)
     \<and> file \<in> listdir s (path_join OUTPUT_FOLDER subdir)}"

subsection \<open>The page and the download route agree\<close>

lemma output_subdir_path:
  "n \<noteq> [] \<Longrightarrow> CHR ''/'' \<notin> set n \<Longrightarrow> path_join OUTPUT_FOLDER n = ''outputs/'' @ n"
  using path_join_rel[of OUTPUT_FOLDER n] by (simp add: OUTPUT_FOLDER_def)

lemma index_entry_stored:
  assumes "e \<in> index s"
  shows "\<exists>n m. e = n @ ''/'' @ m \<and> n \<noteq> [] \<and> m \<noteq> [] \<and> CHR ''/'' \<notin> set n \<and> CHR ''/'' \<notin> set m
           \<and> (\<exists>r b. s (''outputs/'' @ n @ ''/'' @ m @ r) = Some b \<and> (r = [] \<or> take 1 r = ''/''))"
proof -
  obtain n m where e: "e = n @ ''/'' @ m" and n: "n \<in> listdir s OUTPUT_FOLDER"
    and m: "m \<in> listdir s (path_join OUTPUT_FOLDER n)"
    using assms by (auto simp: index_def)
  have n': "n \<noteq> []" "CHR ''/'' \<notin> set n" using n by (auto simp: listdir_def)
  then have "m \<in> listdir s (''outputs/'' @ n)" using m output_subdir_path by simp
  then obtain p b where sp: "s p = Some b" and m': "m \<noteq> []" "CHR ''/'' \<notin> set m"
    and p: "p = ''outputs/'' @ n @ ''/'' @ m \<or> (\<exists>r. p = ''outputs/'' @ n @ ''/'' @ m @ ''/'' @ r)"
    by (auto simp: listdir_def)
  from p obtain r where "p = ''outputs/'' @ n @ ''/'' @ m @ r" and "r = [] \<or> take 1 r = ''/''"
  proof (elim disjE exE)
    assume "p = ''outputs/'' @ n @ ''/'' @ m"
    then show ?thesis using that[of "[]"] by simp
  next
    fix r assume "p = ''outputs/'' @ n @ ''/'' @ m @ ''/'' @ r"
    then show ?thesis using that[of "''/'' @ r"] by simp
  qed
  with sp e n' m' show ?thesis by blast
qed

lemma stored_in_index:
  assumes "plain_segment n" and "plain_segment m" and "s (''outputs/'' @ n @ ''/'' @ m) = Some b"
  shows "n @ ''/'' @ m \<in> index s"
proof -
  have n: "n \<noteq> []" "CHR ''/'' \<notin> set n" and m: "m \<noteq> []" "CHR ''/'' \<notin> set m"
    using assms(1,2) by (auto simp: plain_segment_def)
  have dir: "path_join OUTPUT_FOLDER n = ''outputs/'' @ n" using output_subdir_path[OF n] .
  have "n \<in> listdir s OUTPUT_FOLDER"
    using n assms(3) unfolding listdir_def OUTPUT_FOLDER_def by auto
  moreover have "isdir s (path_join OUTPUT_FOLDER n)"
    using assms(3) unfolding dir isdir_def by auto
  moreover have "m \<in> listdir s (path_join OUTPUT_FOLDER n)"
    using m assms(3) unfolding dir listdir_def by auto
  ultimately show ?thesis unfolding index_def by blast
qed

text \<open>(C24) The index page and the download route agree. A file stored at
  \<open>outputs/n/m\<close> (plain names) is listed on the page as \<open>n/m\<close> and downloads with its
  content, and a listed entry downloads only when that file is stored; every entry of the
  page names a file stored at \<open>outputs/entry\<close> or below it.\<close>

theorem index_download_roundtrip:
  "(plain_segment n \<and> plain_segment m \<longrightarrow>
      (n @ ''/'' @ m \<in> index s \<and> download_file n m s = (200, Sent b)
        \<longleftrightarrow> s (''outputs/'' @ n @ ''/'' @ m) = Some b))
   \<and> (\<forall>e \<in> index s. \<exists>r b'. s (''outputs/'' @ e @ r) = Some b' \<and> (r = [] \<or> take 1 r = ''/''))"
proof (intro conjI impI ballI)
  assume nm: "plain_segment n \<and> plain_segment m"
  then show "n @ ''/'' @ m \<in> index s \<and> download_file n m s = (200, Sent b)
      \<longleftrightarrow> s (''outputs/'' @ n @ ''/'' @ m) = Some b"
    using download_file_plain[of n m s] stored_in_index[of n m s b]
    by (auto split: option.splits)
next
  fix e assume "e \<in> index s"
  then obtain n m r b' where "e = n @ ''/'' @ m" "s (''outputs/'' @ n @ ''/'' @ m @ r) = Some b'"
      "r = [] \<or> take 1 r = ''/''"
    using index_entry_stored by blast
  then show "\<exists>r b'. s (''outputs/'' @ e @ r) = Some b' \<and> (r = [] \<or> take 1 r = ''/'')"
    by auto
qed

theorem index_download_roundtrip_witness:
  "(''png/a.png'' \<in> index [''outputs/png/a.png'' \<mapsto> Opaque]
      \<and> download_file ''png'' ''a.png'' [''outputs/png/a.png'' \<mapsto> Opaque] = (200, Sent Opaque))"
  using index_download_roundtrip[of "''png''" "''a.png''" "[''outputs/png/a.png'' \<mapsto> Opaque]" Opaque]
  by (simp add: plain_segment_def)

end

