(* ===== verification/Spec2Isabelle.thy ===== *)
theory Spec2Isabelle
  imports Isolation Dispatch QtUI Index
begin

text \<open>
  \<^bold>\<open>A verification library for imageHandle.\<close>

  The repository converts images: raster to raster (PNG, JPEG, WebP), SVG to PNG, JPEG or
  PDF, a list of images to an animated GIF, and AutoCAD drawings to PDF. Its code is three
  Python files. \<open>src/converter.py\<close> is a stand-alone module (\<open>convert_image\<close>,
  \<open>convert_dwg_to_pdf\<close>) that nothing in the repository imports. \<open>src/app.py\<close> is a
  Flask application with its own helpers (\<open>allowed_file\<close>, \<open>convert_image\<close>,
  \<open>convert_svg\<close>) and the routes \<open>/convert\<close>, \<open>/merge_gif\<close>, \<open>/dwgtopdf\<close>,
  \<open>/download\<close> and \<open>/\<close>. \<open>src/app_qt5.py\<close> is a PyQt5 desktop front end with
  copies of the helpers and two loops, one converting a selection of files and one making a
  GIF. The components talk through the file system: a route saves the upload, a helper
  reads it and writes the output and its temporary files, the route deletes the upload.

  \<^bold>\<open>Execution model\<close> (theories \<open>Prelude\<close>, \<open>PyLib\<close>, \<open>PyFloat\<close>, \<open>Imaging\<close>,
  \<open>Exec\<close>, \<open>Libs\<close>). The state is the file system, a map from path strings to
  contents (\<open>Exec.fs\<close>); a Python statement is a function from a state to a result and
  the next state, the result an exception or a value (\<open>'a py\<close>); effects made before an
  exception stay. \<open>py_try\<close> is \<open>try/except/finally\<close>. The library functions the
  code calls are modelled after their implementations: \<open>str\<close> and \<open>os.path\<close>
  (\<open>PyLib\<close>), \<open>float()\<close> on strings (\<open>PyFloat\<close>), Pillow's \<open>Image.open\<close>,
  \<open>convert\<close> and \<open>save\<close> with its registry of format names and the JPEG writer's mode
  check, CairoSVG's \<open>svg2png\<close>/\<open>svg2pdf\<close>, imageio's \<open>mimsave\<close> (\<open>Imaging\<close>,
  \<open>Libs\<close>). Pixels are RGBA bytes (\<open>8 word\<close>). Nothing here is assumed: every
  library model is a definition, and the properties below hold for it. The library models
  are partial in three ways, and no property depends on what they leave out: Pillow's
  registry lists the five writers PNG, JPEG, WEBP, GIF and PDF (real Pillow registers more,
  such as BMP, TIFF and XBM, so the model says nothing about other format names); writing a
  file never fails (no full disk, read-only or missing directory), so a missing
  \<open>finally\<close> around steps that could only fail by such an I/O error is not exercised;
  and \<open>mimsave\<close> always writes the GIF it is given (imageio and Pillow reject some
  durations, for instance \<open>nan\<close>, after writing the header, and merge identical
  consecutive frames), so the GIF properties are stated for what the route hands to
  \<open>mimsave\<close>.

  \<^bold>\<open>Components and their theories.\<close>
  \<^item> Format classifier (\<open>Classifier\<close>): \<open>ALLOWED_EXTENSIONS\<close>, \<open>allowed_file\<close>,
    the extension of the conversion route (\<open>ext_of\<close>), the \<open>.dwg\<close> test, and the
    desktop variants. Lemmas: the check is case-insensitive (C15) and a name \<open>b.e\<close> is
    judged by \<open>e\<close> alone (C16).
  \<^item> Stand-alone converter (\<open>Converter\<close>, \<open>src/converter.py\<close>): \<open>convert_image\<close>
    with its SVG pipeline and \<open>convert_dwg_to_pdf\<close> with the DSD file and the CAD backend
    as a record of COM operations (\<open>cad_backend\<close>). Lemmas: JPEG output never carries
    alpha (C5); when the output path has no \<open>.jpg\<close> the temporary PNG is the output,
    which is deleted (C6); the DSD file round-trips its paths (C13) and is never deleted
    (C12); a failing publish propagates its exception and skips \<open>Close\<close>, \<open>Quit\<close> and
    \<open>CoUninitialize\<close>, as there is no \<open>finally\<close> (C14).
  \<^item> Dispatch contract (\<open>Dispatch\<close>): the specification's table of (source kind,
    target) pairs as \<open>spec_dispatch\<close>, and \<open>convert_image\<close> of \<open>converter.py\<close>
    measured against it by \<open>succeeds\<close> (returns without an exception). On SVG inputs the
    code succeeds exactly on the vector rows (C22); on decodable RGB rasters it writes the
    output for every raster row and also for \<open>pdf\<close> and \<open>gif\<close>, pairs the table
    refuses (C23).
  \<^item> Web converters (\<open>AppConvert\<close>, \<open>src/app.py\<close> \<open>convert_image\<close>,
    \<open>convert_svg\<close>): JPEG conversion always fails with \<open>KeyError('JPG')\<close> (C2);
    SVG to PNG deletes its output (C3); SVG to JPEG leaks its temporary PNG (C4).
  \<^item> Job facade (\<open>Routes\<close>, the Flask routes): \<open>convert\<close>, \<open>merge_gif\<close> with its
    frame loop \<open>collect_frames\<close>, \<open>dwg_to_pdf\<close>. Lemmas: the upload is removed on
    every path (C1); fewer than two frames give no GIF (C8); frames keep upload order and
    share one duration (C9); a file that does not decode ends the GIF route with 500
    before later files are checked, whatever their type (C10); the DWG route never succeeds
    (C11). At the level of the route, the helper bugs show as a 200 answer whose download
    link names a deleted file (C25), a 500 answer with a temporary PNG left in
    \<open>outputs/jpg\<close> (C26), and a 500 answer for every raster conversion to \<open>jpg\<close>
    (C27).
  \<^item> Concurrent requests (\<open>Concurrency\<close>): \<open>/convert\<close> cut into the steps at
    which another server thread can run (save the upload, call the helper, clean up), as a
    \<open>job\<close> that is finished or waits for its next step (\<open>convert_job\<close>,
    \<open>convert_tail\<close>), and \<open>interleave\<close>, two jobs under a schedule. Run alone with
    three steps of fuel, the cut job gives the answer and file system of \<open>convert\<close> on
    every request (\<open>convert_job_alone\<close>). Two uploads with the same name race: for
    every pair of raster uploads, one schedule makes the first request answer 200 with the
    second user's image in its output and the second answer 500 because its upload was
    removed (C28).
  \<^item> Isolation (\<open>Isolation\<close>): a statement is local to a set of paths
    (\<open>local_step\<close>) when its result and its effect there depend only on those paths and
    it changes nothing else; a job is local when all its steps are (\<open>local_job\<close>). The
    library calls and both web helpers are local to their input, output and temporary
    paths, so a \<open>/convert\<close> job is local to the three paths named after its upload
    (\<open>job_paths\<close>). Two local jobs on disjoint paths run under any schedule as they
    would alone (\<open>interleave_first\<close>, \<open>interleave_second\<close>); for two
    \<open>/convert\<close> jobs with distinct paths, every schedule that gives each its three steps
    yields the answers and files of \<open>convert\<close> run alone and changes nothing else (C29).
  \<^item> Desktop front end (\<open>QtApp\<close>, \<open>src/app_qt5.py\<close>): the helper copies, the
    batch loop \<open>convert_loop\<close> of \<open>select_and_convert\<close> and \<open>select_and_merge_gif\<close>.
    Lemmas: the report accounts for every file (C17); jpg converts nothing (C18); every
    selection of SVG files converted to png is reported converted while no PNG is left
    (C21); the GIF keeps selection order (C20).
  \<^item> Desktop window (\<open>QtUI\<close>, \<open>ImageConverter.__init__\<close> and \<open>main\<close>): the
    two combo boxes modelled after \<open>QComboBox\<close> (items, current index, \<open>addItems\<close>,
    \<open>currentText\<close>), the slots \<open>on_convert\<close> and \<open>on_merge_gif\<close> that read them,
    the user events (\<open>ui_step\<close>) and the states the event loop reaches from a freshly
    opened window (\<open>reachable\<close>, an inductive relation). Lemmas, by rule induction on
    \<open>reachable\<close> over the invariant \<open>wf_desktop\<close>: the format and duration read are
    always items of their combo boxes (C30), the duration always parses to between 0.1 and
    1 second (C31), and every format can always be chosen with one event (C32).
  \<^item> Download route (\<open>Download\<close>): \<open>download_file\<close> with Flask's
    \<open>send_from_directory\<close>, Werkzeug's \<open>safe_join\<close> and \<open>posixpath.normpath\<close>
    (\<open>PyLib.normpath\<close>). For plain path segments it serves exactly
    \<open>outputs/format/filename\<close>, but the unchecked \<open>format\<close> segment \<open>..\<close> serves the
    application's own files (C33).
  \<^item> Index page (\<open>Index\<close>): \<open>index\<close> with \<open>os.listdir\<close> and
    \<open>os.path.isdir\<close> over the file system, as the set of \<open>subdir/file\<close> entries the
    page lists. The page and the download route agree: a stored output is listed and
    downloads with its content, and every entry names something stored under
    \<open>outputs\<close> (C24). Composed with \<open>/convert\<close>, the download link of a
    successful raster conversion serves the converted image (C19).
  \<^item> This theory: what the JPEG path of \<open>converter.py\<close> does to a transparent pixel
    of any raster input, compared with the specification's flattening over white (C7), and
    the witnesses.

  \<^bold>\<open>Parameters and fuel.\<close> No loop of the code can run forever (the GIF loops and
  the desktop batch loop are structural recursion over the uploaded or selected files).
  The only fuel is that of \<open>run_alone\<close>, which runs a cut \<open>/convert\<close> job: three
  steps are enough for every request (\<open>convert_job_alone\<close>). What the code gets from
  outside is a parameter: \<open>secure_filename\<close>, the \<open>uuid4\<close> hex string, the COM
  backend, and the thread schedule.

  \<^bold>\<open>Not modelled.\<close> The order of the index page's entries (\<open>os.listdir\<close>
  returns them in no specified order) and its HTML template; the module-level
  set-up of \<open>app.py\<close> (\<open>app.config\<close> and \<open>os.makedirs\<close>: directories are not
  modelled, \<open>MAX_CONTENT_LENGTH\<close> is enforced by Werkzeug before a route runs); the Qt
  widgets' title, size and layouts, which have no behaviour; pixel-exact encoding (JPEG is
  lossless in the model); Pillow's palette and transparency handling beyond the alpha
  band; rounding of \<open>float()\<close> to binary64; I/O errors of writes; Windows path syntax
  (\<open>convert_dwg_to_pdf\<close> runs only on Windows, but its paths are read with POSIX
  \<open>os.path\<close>); concurrency inside a library call (each call is one atomic step).
  \<open>/merge_gif\<close> is not cut into steps: it reads its uploads from the request, not from
  the file system, and writes one file named by \<open>uuid4\<close>, so it shares no path with
  another request unless two hex strings collide.
\<close>

abbreviation demo_img :: image where
  "demo_img \<equiv> \<lparr>img_mode = Mode_RGBA, img_size = (1, 1), img_pixels = [(0, 0, 0, 0)]\<rparr>"

abbreviation demo_rgb :: image where
  "demo_rgb \<equiv> \<lparr>img_mode = Mode_RGB, img_size = (1, 1), img_pixels = [(0, 0, 0, 255)]\<rparr>"

abbreviation demo_upload :: "string \<Rightarrow> blob \<Rightarrow> upload" where
  "demo_upload n b \<equiv> \<lparr>filename = n, content = b\<rparr>"

lemmas demo_simps = str_simps py_simps Let_def mdict_get_def mdict_getlist_def
  allowed_file_def ALLOWED_EXTENSIONS_def ext_of_def form_duration_def
  UPLOAD_FOLDER_def OUTPUT_FOLDER_def

subsection \<open>Properties spanning components\<close>

lemma transparent_pixel_flattened:
  "img_pixels im ! k = (r, g, b, 0) \<Longrightarrow> k < length (img_pixels im) \<Longrightarrow>
   img_pixels (flatten_white im) ! k = (255, 255, 255, 255)"
  by (simp add: flatten_white_def flatten_pixel_def)

text \<open>(C7) The JPEG path of \<open>converter.py\<close> does not flatten transparency onto white
  as the specification asks: it drops the alpha band. On every decodable raster input, a
  fully transparent pixel comes out in the JPEG with the colour stored under it, made
  opaque, where compositing over white gives a white pixel.\<close>

theorem jpg_transparent_pixel_black:
  assumes "py_lower (snd (splitext i)) \<noteq> ''.svg''" and "s i = Some (Img f im)" and "f \<noteq> PDF"
    and "k < length (img_pixels im)" and "img_pixels im ! k = (r, g, b, 0)"
  shows "\<exists>im'. convert_image i out ''jpg'' s = (Inr (), s(out \<mapsto> Img JPEG im'))
           \<and> img_pixels im' ! k = (r, g, b, 255)
           \<and> img_pixels (flatten_white im) ! k = (255, 255, 255, 255)"
proof -
  have "pil_format ''JPEG'' = Some JPEG" by (simp add: pil_format_def pil_registry_def)
  then have "convert_image i out ''jpg'' s = (Inr (), s(out \<mapsto> Img JPEG (convert_rgb im)))"
    using assms(1-3) pil_save_rgb_ok
    by (simp add: convert_image_def pil_open_def fs_read_def decode_blob_def py_bind_def py_return_def)
  moreover have "img_pixels (convert_rgb im) ! k = (r, g, b, 255)"
    using assms(4,5) by (simp add: convert_rgb_def opaque_def)
  ultimately show ?thesis using transparent_pixel_flattened[OF assms(5,4)] by blast
qed

subsection \<open>Witnesses\<close>

text \<open>Each property with a hypothesis, applied at a concrete input where its hypotheses
  hold.\<close>

theorem convert_removes_upload_witness:
  "snd (convert id \<lparr>req_files = [(''file'', demo_upload ''a.svg'' (Svg demo_img))],
                    req_form = [(''convert_type'', ''png'')]\<rparr> Map.empty) ''uploads/a.svg'' = None"
  using Routes.convert_removes_upload[of "\<lparr>req_files = [(''file'', demo_upload ''a.svg'' (Svg demo_img))],
      req_form = [(''convert_type'', ''png'')]\<rparr>" "demo_upload ''a.svg'' (Svg demo_img)" "''png''" id Map.empty]
  by (simp add: demo_simps)

theorem convert_image_app_jpg_fails_witness:
  "convert_image_app ''u/a.png'' ''o/a.jpg'' ''jpg'' [''u/a.png'' \<mapsto> Img PNG demo_img]
   = (Inl (KeyError ''JPG''), [''u/a.png'' \<mapsto> Img PNG demo_img])"
proof -
  obtain e where "convert_image_app ''u/a.png'' ''o/a.jpg'' ''jpg'' [''u/a.png'' \<mapsto> Img PNG demo_img]
      = (Inl e, [''u/a.png'' \<mapsto> Img PNG demo_img])"
    using AppConvert.convert_image_app_jpg_fails by blast
  moreover have "fst (convert_image_app ''u/a.png'' ''o/a.jpg'' ''jpg'' [''u/a.png'' \<mapsto> Img PNG demo_img])
      = Inl (KeyError ''JPG'')"
    by (simp add: convert_image_app_def py_simps)
  ultimately show ?thesis by simp
qed

theorem convert_svg_png_self_delete_witness:
  "convert_svg ''u/a.svg'' ''o/a.png'' ''png'' [''u/a.svg'' \<mapsto> Svg demo_img] = (Inr (), [''u/a.svg'' \<mapsto> Svg demo_img])"
  using AppConvert.convert_svg_png_self_delete[of "[''u/a.svg'' \<mapsto> Svg demo_img]" "''u/a.svg''" demo_img "''o/a''"]
  by simp

theorem convert_svg_jpg_leaks_temp_witness:
  "convert_svg ''u/a.svg'' ''o/a.jpg'' ''jpg'' [''u/a.svg'' \<mapsto> Svg demo_img]
   = (Inl (KeyError ''JPG''), [''u/a.svg'' \<mapsto> Svg demo_img, ''o/a.png'' \<mapsto> Img PNG demo_img])"
  using AppConvert.convert_svg_jpg_leaks_temp[of "[''u/a.svg'' \<mapsto> Svg demo_img]" "''u/a.svg''" demo_img "''o/a.jpg''"]
  by (simp add: svg_temp_path_def str_simps)

theorem convert_image_jpg_rgb_witness:
  "convert_image ''in/a.png'' ''out/a.jpg'' ''jpg'' [''in/a.png'' \<mapsto> Img PNG demo_img]
     = (Inr (), [''in/a.png'' \<mapsto> Img PNG demo_img, ''out/a.jpg'' \<mapsto> Img JPEG (convert_rgb demo_img)])
   \<and> (\<exists>im. Img JPEG (convert_rgb demo_img) = Img JPEG im \<and> img_mode im = Mode_RGB)"
proof -
  have run: "convert_image ''in/a.png'' ''out/a.jpg'' ''jpg'' [''in/a.png'' \<mapsto> Img PNG demo_img]
     = (Inr (), [''in/a.png'' \<mapsto> Img PNG demo_img, ''out/a.jpg'' \<mapsto> Img JPEG (convert_rgb demo_img)])"
    by (simp add: convert_image_def Let_def py_simps str_simps)
  show ?thesis
    using run Converter.convert_image_jpg_rgb[OF run] by simp
qed

theorem convert_image_svg_jpg_self_delete_witness:
  "convert_image ''in/a.svg'' ''out/a.jpeg'' ''jpg'' [''in/a.svg'' \<mapsto> Svg demo_img]
   = (Inr (), [''in/a.svg'' \<mapsto> Svg demo_img])"
  using Converter.convert_image_svg_jpg_self_delete[of "''in/a.svg''" "[''in/a.svg'' \<mapsto> Svg demo_img]" demo_img "''out/a.jpeg''"]
  by (simp add: str_simps)

theorem convert_dwg_publish_error_witness:
  "convert_dwg_to_pdf
     \<lparr>com_available = True, cad_dispatch = py_pass, cad_open = \<lambda>_. py_pass,
      cad_publish = \<lambda>_. py_raise (OSError ''PublishToWeb''),
      cad_close = fs_write ''acad/closed'' (Text [])\<rparr> ''d.dwg'' ''d.pdf'' Map.empty
   = (Inl (OSError ''PublishToWeb''), [dsd_path_of ''d.dwg'' \<mapsto> Text (dsd_content ''d.dwg'' ''d.pdf'')])"
  using Converter.convert_dwg_publish_error[of
      "\<lparr>com_available = True, cad_dispatch = py_pass, cad_open = \<lambda>_. py_pass,
        cad_publish = \<lambda>_. py_raise (OSError ''PublishToWeb''),
        cad_close = fs_write ''acad/closed'' (Text [])\<rparr>"
      Map.empty Map.empty "''d.dwg''" Map.empty "''d.pdf''" "OSError ''PublishToWeb''"
      "[dsd_path_of ''d.dwg'' \<mapsto> Text (dsd_content ''d.dwg'' ''d.pdf'')]"]
  by (simp add: py_simps)

theorem dsd_roundtrip_witness:
  "ini_value ''DWG'' (split_on CHR ''\<newline>'' (dsd_content ''C:/d/x.dwg'' ''C:/o/x.pdf'')) = Some ''C:/d/x.dwg''
 \<and> ini_value ''DWF'' (split_on CHR ''\<newline>'' (dsd_content ''C:/d/x.dwg'' ''C:/o/x.pdf'')) = Some ''C:/o/x.pdf''"
  using Converter.dsd_roundtrip[of "''C:/d/x.dwg''" "''C:/o/x.pdf''"] by simp

theorem convert_dwg_leaves_dsd_witness:
  "convert_dwg_to_pdf \<lparr>com_available = True, cad_dispatch = py_pass, cad_open = \<lambda>_. py_pass,
      cad_publish = \<lambda>_. fs_write ''d/x.pdf'' VecPdf, cad_close = py_pass\<rparr> ''d/x.dwg'' ''d/x.pdf'' Map.empty
   = (Inr (), [''d/x.dsd'' \<mapsto> Text (dsd_content ''d/x.dwg'' ''d/x.pdf''), ''d/x.pdf'' \<mapsto> VecPdf])
   \<and> snd (convert_dwg_to_pdf \<lparr>com_available = True, cad_dispatch = py_pass, cad_open = \<lambda>_. py_pass,
      cad_publish = \<lambda>_. fs_write ''d/x.pdf'' VecPdf, cad_close = py_pass\<rparr> ''d/x.dwg'' ''d/x.pdf'' Map.empty)
      ''d/x.dsd'' = Some (Text (dsd_content ''d/x.dwg'' ''d/x.pdf''))"
proof -
  let ?cad = "\<lparr>com_available = True, cad_dispatch = py_pass, cad_open = \<lambda>_. py_pass,
      cad_publish = \<lambda>_. fs_write ''d/x.pdf'' VecPdf, cad_close = py_pass\<rparr>"
  have dsd: "dsd_path_of ''d/x.dwg'' = ''d/x.dsd''" by (simp add: dsd_path_of_def str_simps)
  have run: "convert_dwg_to_pdf ?cad ''d/x.dwg'' ''d/x.pdf'' Map.empty
     = (Inr (), [''d/x.dsd'' \<mapsto> Text (dsd_content ''d/x.dwg'' ''d/x.pdf''), ''d/x.pdf'' \<mapsto> VecPdf])"
    by (simp add: convert_dwg_to_pdf_def py_simps dsd)
  have "snd (convert_dwg_to_pdf ?cad ''d/x.dwg'' ''d/x.pdf'' Map.empty) (dsd_path_of ''d/x.dwg'')
      = Some (Text (dsd_content ''d/x.dwg'' ''d/x.pdf''))"
    using Converter.convert_dwg_leaves_dsd[of ?cad "''d/x.dwg''" "''d/x.pdf''" Map.empty] run dsd
    by (simp add: py_simps)
  with run dsd show ?thesis by simp
qed

theorem merge_gif_too_few_witness:
  "merge_gif ''ab'' \<lparr>req_files = [(''files'', demo_upload ''a.png'' (Img PNG demo_img))], req_form = []\<rparr> Map.empty
   = (Inr (400, Error TooFewImages), Map.empty)"
proof -
  let ?rq = "\<lparr>req_files = [(''files'', demo_upload ''a.png'' (Img PNG demo_img))], req_form = []\<rparr>"
  have "snd (merge_gif ''ab'' ?rq Map.empty) = Map.empty"
    using Routes.merge_gif_too_few[of ?rq "''ab''" Map.empty] by (simp add: mdict_getlist_def)
  moreover have "fst (merge_gif ''ab'' ?rq Map.empty) = Inr (400, Error TooFewImages)"
    by (simp add: merge_gif_def demo_simps)
  ultimately show ?thesis by (metis prod.collapse)
qed

theorem merge_gif_frames_in_order_witness:
  "merge_gif ''ab'' \<lparr>req_files = [(''files'', demo_upload ''a.png'' (Img PNG demo_img)),
                                 (''files'', demo_upload ''b.jpeg'' (Img JPEG demo_img))], req_form = []\<rparr> Map.empty
   = (Inr (200, Success GifOk ''combo_ab.gif'' ''/download/gif/combo_ab.gif''),
      Map.empty(''outputs/gif/combo_ab.gif'' \<mapsto> Anim [convert_rgba demo_img, convert_rgba demo_img] (Finite (1 / 2))))"
  using Routes.merge_gif_frames_in_order[of "\<lparr>req_files = [(''files'', demo_upload ''a.png'' (Img PNG demo_img)),
      (''files'', demo_upload ''b.jpeg'' (Img JPEG demo_img))], req_form = []\<rparr>"
      "[demo_upload ''a.png'' (Img PNG demo_img), demo_upload ''b.jpeg'' (Img JPEG demo_img)]"
      "[demo_img, demo_img]" "Finite (1 / 2)" "''ab''" Map.empty]
  by (simp add: demo_simps decode_blob_def gif_name_def gif_path_def)

theorem dwg_to_pdf_never_succeeds_witness:
  "\<exists>c m. fst (dwg_to_pdf id \<lparr>req_files = [(''file'', demo_upload ''x.dwg'' Opaque)], req_form = []\<rparr> Map.empty)
     = Inr (c, Error m)"
  using Routes.dwg_to_pdf_never_succeeds[of id "\<lparr>req_files = [(''file'', demo_upload ''x.dwg'' Opaque)], req_form = []\<rparr>" Map.empty]
  by blast

theorem allowed_file_case_insensitive_witness:
  "allowed_file (py_lower ''Photo.PNG'') = allowed_file ''Photo.PNG'' \<and> allowed_file ''Photo.PNG''"
  using Classifier.allowed_file_case_insensitive[of "''Photo.PNG''"]
  by (simp add: allowed_file_def ALLOWED_EXTENSIONS_def str_simps)

theorem allowed_file_join_witness:
  "allowed_file ''my.photo.JPeG'' \<and> \<not> allowed_file ''archive.svg.zip''"
  using Classifier.allowed_file_join[of "''JPeG''" "''my.photo''"]
    Classifier.allowed_file_join[of "''zip''" "''archive.svg''"]
  by (simp add: ALLOWED_EXTENSIONS_def str_simps)

theorem select_and_convert_counts_witness:
  "select_and_convert ''png'' [''d/b.txt''] Map.empty = (Some (Warning, ConvertSummary 0 [''d/b.txt'']), Map.empty)
   \<and> 0 + length [''d/b.txt''] = length [''d/b.txt'']"
proof -
  have run: "select_and_convert ''png'' [''d/b.txt''] Map.empty
      = (Some (Warning, ConvertSummary 0 [''d/b.txt'']), Map.empty)"
    by (simp add: select_and_convert_def allowed_file_qt_def ALLOWED_EXTENSIONS_qt_def str_simps)
  show ?thesis using run QtApp.select_and_convert_counts[OF run] by simp
qed

theorem select_and_convert_jpg_all_fail_witness:
  "fst (select_and_convert ''jpg'' [''d/a.png''] [''d/a.png'' \<mapsto> Img PNG demo_img])
   = Some (Warning, ConvertSummary 0 [''d/a.png''])"
  using QtApp.select_and_convert_jpg_all_fail[of "[''d/a.png'']" "[''d/a.png'' \<mapsto> Img PNG demo_img]"]
  by simp

theorem select_and_merge_gif_ok_witness:
  "select_and_merge_gif ''0.5'' ''ab'' [''d/a.png'', ''d/b.png'']
     [''d/a.png'' \<mapsto> Img PNG demo_img, ''d/b.png'' \<mapsto> Img PNG demo_img]
   = ((Information, GifDone ''d/combo_ab.gif''),
      [''d/a.png'' \<mapsto> Img PNG demo_img, ''d/b.png'' \<mapsto> Img PNG demo_img,
       ''d/combo_ab.gif'' \<mapsto> Anim [convert_rgba demo_img, convert_rgba demo_img] (Finite (1 / 2))])"
proof -
  have p: "qt_gif_path [''d/a.png'', ''d/b.png''] ''ab'' = ''d/combo_ab.gif''"
    by (simp add: qt_gif_path_def str_simps)
  have f: "py_float ''0.5'' = Some (Finite (1 / 2))" by (simp add: str_simps)
  show ?thesis
    using QtApp.select_and_merge_gif_ok[of "[''d/a.png'', ''d/b.png'']"
        "[''d/a.png'' \<mapsto> Img PNG demo_img, ''d/b.png'' \<mapsto> Img PNG demo_img]" "[demo_img, demo_img]"
        "''0.5''" "Finite (1 / 2)" "''ab''"] p f
    by simp
qed

theorem jpg_transparent_pixel_black_witness:
  "\<exists>im'. convert_image ''in/a.png'' ''out/a.jpg'' ''jpg'' [''in/a.png'' \<mapsto> Img PNG demo_img]
       = (Inr (), [''in/a.png'' \<mapsto> Img PNG demo_img, ''out/a.jpg'' \<mapsto> Img JPEG im'])
     \<and> img_pixels im' ! 0 = (0, 0, 0, 255)
     \<and> img_pixels (flatten_white demo_img) ! 0 = (255, 255, 255, 255)"
  using jpg_transparent_pixel_black[of "''in/a.png''" "[''in/a.png'' \<mapsto> Img PNG demo_img]" PNG demo_img 0 0 0 0
      "''out/a.jpg''"]
  by (simp add: str_simps)

theorem merge_gif_decodes_before_checking_witness:
  "merge_gif ''ab'' \<lparr>req_files = [(''files'', demo_upload ''a.png'' Opaque),
                                 (''files'', demo_upload ''b.txt'' Opaque)], req_form = []\<rparr> Map.empty
   = (Inr (500, Error (GifFailed (UnidentifiedImageError ''a.png''))), Map.empty)"
  using Routes.merge_gif_decodes_before_checking[of "\<lparr>req_files = [(''files'', demo_upload ''a.png'' Opaque),
      (''files'', demo_upload ''b.txt'' Opaque)], req_form = []\<rparr>" "[]" "demo_upload ''a.png'' Opaque"
      "[demo_upload ''b.txt'' Opaque]" "''ab''" Map.empty]
  by (simp add: demo_simps decode_blob_def)

theorem convert_image_vector_refines_witness:
  "succeeds (convert_image ''in/a.svg'' ''out/a.pdf'' ''pdf'') [''in/a.svg'' \<mapsto> Svg demo_img]
   \<and> \<not> succeeds (convert_image ''in/a.svg'' ''out/a.gif'' ''gif'') [''in/a.svg'' \<mapsto> Svg demo_img]"
  using Dispatch.convert_image_vector_refines[of "''in/a.svg''" "[''in/a.svg'' \<mapsto> Svg demo_img]" demo_img "''out/a.pdf''" "''pdf''"]
    Dispatch.convert_image_vector_refines[of "''in/a.svg''" "[''in/a.svg'' \<mapsto> Svg demo_img]" demo_img "''out/a.gif''" "''gif''"]
  by (simp add: str_simps spec_dispatch_def)

theorem convert_image_raster_dispatch_witness:
  "(\<exists>g. convert_image ''in/a.png'' ''out/a.webp'' ''webp'' [''in/a.png'' \<mapsto> Img PNG demo_rgb]
        = (Inr (), [''in/a.png'' \<mapsto> Img PNG demo_rgb, ''out/a.webp'' \<mapsto> Img g demo_rgb]))
   \<and> (\<exists>g. convert_image ''in/a.png'' ''out/a.pdf'' ''pdf'' [''in/a.png'' \<mapsto> Img PNG demo_rgb]
        = (Inr (), [''in/a.png'' \<mapsto> Img PNG demo_rgb, ''out/a.pdf'' \<mapsto> Img g demo_rgb]))"
  using Dispatch.convert_image_raster_dispatch[of "''in/a.png''" "[''in/a.png'' \<mapsto> Img PNG demo_rgb]" PNG demo_rgb
      "''webp''" "''out/a.webp''"]
    Dispatch.convert_image_raster_dispatch[of "''in/a.png''" "[''in/a.png'' \<mapsto> Img PNG demo_rgb]" PNG demo_rgb
      "''pdf''" "''out/a.pdf''"]
  by (simp add: str_simps spec_dispatch_def)

theorem convert_svg_png_dead_link_witness:
  "fst (convert id \<lparr>req_files = [(''file'', demo_upload ''a.svg'' (Svg demo_img))],
                     req_form = [(''convert_type'', ''png'')]\<rparr> Map.empty)
     = Inr (200, Success ConvertOk ''a.png'' ''/download/png/a.png'')
   \<and> snd (convert id \<lparr>req_files = [(''file'', demo_upload ''a.svg'' (Svg demo_img))],
                     req_form = [(''convert_type'', ''png'')]\<rparr> Map.empty) ''outputs/png/a.png'' = None"
  using Routes.convert_svg_png_dead_link[of "\<lparr>req_files = [(''file'', demo_upload ''a.svg'' (Svg demo_img))],
                     req_form = [(''convert_type'', ''png'')]\<rparr>" "demo_upload ''a.svg'' (Svg demo_img)"
      demo_img id Map.empty]
  by (simp add: demo_simps)

theorem convert_svg_jpg_route_leaks_witness:
  "fst (convert id \<lparr>req_files = [(''file'', demo_upload ''a.svg'' (Svg demo_img))],
                     req_form = [(''convert_type'', ''jpg'')]\<rparr> Map.empty)
     = Inr (500, Error (ConvertError (KeyError ''JPG'')))
   \<and> snd (convert id \<lparr>req_files = [(''file'', demo_upload ''a.svg'' (Svg demo_img))],
                     req_form = [(''convert_type'', ''jpg'')]\<rparr> Map.empty) ''outputs/jpg/a.png''
     = Some (Img PNG demo_img)"
  using Routes.convert_svg_jpg_route_leaks[of "\<lparr>req_files = [(''file'', demo_upload ''a.svg'' (Svg demo_img))],
                     req_form = [(''convert_type'', ''jpg'')]\<rparr>" "demo_upload ''a.svg'' (Svg demo_img)"
      demo_img id Map.empty]
  by (simp add: demo_simps)

theorem convert_raster_jpg_route_fails_witness:
  "\<exists>e. convert id \<lparr>req_files = [(''file'', demo_upload ''a.png'' (Img PNG demo_img))],
                req_form = [(''convert_type'', ''jpg'')]\<rparr> [''uploads/a.png'' \<mapsto> Text ''old'']
   = (Inr (500, Error (ConvertError e)), Map.empty)"
  using Routes.convert_raster_jpg_route_fails[of "\<lparr>req_files = [(''file'', demo_upload ''a.png'' (Img PNG demo_img))],
                     req_form = [(''convert_type'', ''jpg'')]\<rparr>" "demo_upload ''a.png'' (Img PNG demo_img)"
      id "[''uploads/a.png'' \<mapsto> Text ''old'']"]
  by (simp add: demo_simps)

end
